theory Spec2Isabelle
  imports Complex_Main "HOL-Library.Word" "HOL-Library.Monad_Syntax"
begin

unbundle bit_operations_syntax

chapter \<open>Gear mesh generation and GLB export\<close>

text \<open>
  A shallow embedding of the two pure functions of the gear configurator:
  \<^verbatim>\<open>createGearGeometry\<close> (the procedural mesh of a spur gear) and \<^verbatim>\<open>exportGLB\<close>
  (the byte layout of the binary glTF container).

  Conventions of the embedding.
  \<^item> A JavaScript \<^verbatim>\<open>number\<close> that carries a parameter or a coordinate is a \<^typ>\<open>real\<close>: arithmetic,
    \<^verbatim>\<open>Math.cos\<close>, \<^verbatim>\<open>Math.sin\<close> and \<^verbatim>\<open>Math.hypot\<close> are exact, rounding of
    doubles is not modelled. A number that counts or indexes is a \<^typ>\<open>nat\<close>. The counts, the
    indices and the formula of a position do not depend on rounding; the length of a normal
    does, and the statements about it are made of a second embedding of the generator, over
    the arithmetic of doubles.
  \<^item> \<^verbatim>\<open>Array.push\<close> appends at the end of a list.
  \<^item> An \<^verbatim>\<open>ArrayBuffer\<close> is a list of bytes; an operation of the platform that can
    throw (\<^verbatim>\<open>RangeError\<close> of \<^verbatim>\<open>DataView\<close> and of \<^verbatim>\<open>TypedArray.set\<close>) returns an
    \<^typ>\<open>'a option\<close>, \<^term>\<open>None\<close> standing for the exception.
\<close>

section \<open>The geometry generator\<close>

subsection \<open>The mesh and the variables of the generator\<close>

text \<open>The object literal \<^verbatim>\<open>{ vertices, normals, indices }\<close>, also the \<^verbatim>\<open>Geometry\<close>
  interface of the exporter.\<close>

record Geometry =
  vertices :: "real list"
  normals :: "real list"
  indices :: "nat list"

text \<open>The three arrays under construction together with the counter \<^verbatim>\<open>vertexIndex\<close>.\<close>

record gear_vars = Geometry +
  vertexIndex :: nat

text \<open>One source line of the form
  \<^verbatim>\<open>const v = vertexIndex++; vertices.push(x, y, z); normals.push(nx, ny, nz);\<close>
  It yields the index given to the vertex and the updated variables.\<close>

definition push_vertex ::
  "real \<times> real \<times> real \<Rightarrow> real \<times> real \<times> real \<Rightarrow> gear_vars \<Rightarrow> nat \<times> gear_vars" where
  "push_vertex p n st =
     (case (p, n) of ((x, y, z), (nx, ny, nz)) \<Rightarrow>
        (vertexIndex st,
         st\<lparr>vertices := vertices st @ [x, y, z],
            normals := normals st @ [nx, ny, nz],
            vertexIndex := vertexIndex st + 1\<rparr>))"

text \<open>\<^verbatim>\<open>indices.push(a, b, c, d, e, f)\<close>.\<close>

definition push_indices :: "nat list \<Rightarrow> gear_vars \<Rightarrow> gear_vars" where
  "push_indices ks st = st\<lparr>indices := indices st @ ks\<rparr>"

text \<open>\<^verbatim>\<open>Math.hypot(x, y)\<close>, and the idiom \<^verbatim>\<open>l || 1\<close> on a number: \<^verbatim>\<open>0\<close> is falsy,
  so the value is \<^verbatim>\<open>1\<close> exactly when \<^verbatim>\<open>l\<close> is zero. (A \<^typ>\<open>real\<close> is never \<^verbatim>\<open>NaN\<close>
  and no product overflows; what the doubles do there is the matter of the second
  embedding.)\<close>

definition Math_hypot :: "real \<Rightarrow> real \<Rightarrow> real" where
  "Math_hypot x y = sqrt (x * x + y * y)"

definition or_one :: "real \<Rightarrow> real" where
  "or_one l = (if l = 0 then 1 else l)"

subsection \<open>The body of the loop: one angular segment\<close>

definition gear_segment ::
  "real \<Rightarrow> real \<Rightarrow> real \<Rightarrow> real \<Rightarrow> real \<Rightarrow> nat \<Rightarrow> gear_vars \<Rightarrow> gear_vars" where
  "gear_segment innerRadius outerRadius width toothRadius angleStep i st0 =
    (let angle = real i * angleStep;
         nextAngle = real (i + 1) * angleStep;
         r1 = (if i mod 4 = 1 \<or> i mod 4 = 2 then toothRadius else outerRadius);
         r2 = (if (i + 1) mod 4 = 1 \<or> (i + 1) mod 4 = 2 then toothRadius else outerRadius);
         r3 = innerRadius;
         z = width * 0.5;
         c1 = cos angle; s1 = sin angle;
         c2 = cos nextAngle; s2 = sin nextAngle;
         \<comment> \<open>Front face\<close>
         (v0f_idx, st) = push_vertex (r3 * c1, r3 * s1, z) (0, 0, 1) st0;
         (v1f_idx, st) = push_vertex (r1 * c1, r1 * s1, z) (0, 0, 1) st;
         (v2f_idx, st) = push_vertex (r2 * c2, r2 * s2, z) (0, 0, 1) st;
         (v3f_idx, st) = push_vertex (r3 * c2, r3 * s2, z) (0, 0, 1) st;
         st = push_indices [v0f_idx, v1f_idx, v2f_idx, v0f_idx, v2f_idx, v3f_idx] st;
         \<comment> \<open>Back face\<close>
         (v0b_idx, st) = push_vertex (r3 * c1, r3 * s1, - z) (0, 0, - 1) st;
         (v1b_idx, st) = push_vertex (r1 * c1, r1 * s1, - z) (0, 0, - 1) st;
         (v2b_idx, st) = push_vertex (r2 * c2, r2 * s2, - z) (0, 0, - 1) st;
         (v3b_idx, st) = push_vertex (r3 * c2, r3 * s2, - z) (0, 0, - 1) st;
         st = push_indices [v0b_idx, v2b_idx, v1b_idx, v0b_idx, v3b_idx, v2b_idx] st;
         \<comment> \<open>Outer face\<close>
         n_outer_x = r1 * s1 + r2 * s2;
         n_outer_y = - (r1 * c1 + r2 * c2);
         l_outer = or_one (Math_hypot n_outer_x n_outer_y);
         nx_o = n_outer_x / l_outer; ny_o = n_outer_y / l_outer;
         (v4_idx, st) = push_vertex (r1 * c1, r1 * s1, z) (nx_o, ny_o, 0) st;
         (v5_idx, st) = push_vertex (r1 * c1, r1 * s1, - z) (nx_o, ny_o, 0) st;
         (v6_idx, st) = push_vertex (r2 * c2, r2 * s2, - z) (nx_o, ny_o, 0) st;
         (v7_idx, st) = push_vertex (r2 * c2, r2 * s2, z) (nx_o, ny_o, 0) st;
         st = push_indices [v4_idx, v5_idx, v6_idx, v4_idx, v6_idx, v7_idx] st;
         \<comment> \<open>Inner face\<close>
         n_inner_x = - (r3 * s1 + r3 * s2);
         n_inner_y = r3 * c1 + r3 * c2;
         l_inner = or_one (Math_hypot n_inner_x n_inner_y);
         nx_i = n_inner_x / l_inner; ny_i = n_inner_y / l_inner;
         (v8_idx, st) = push_vertex (r3 * c1, r3 * s1, z) (nx_i, ny_i, 0) st;
         (v9_idx, st) = push_vertex (r3 * c2, r3 * s2, z) (nx_i, ny_i, 0) st;
         (v10_idx, st) = push_vertex (r3 * c2, r3 * s2, - z) (nx_i, ny_i, 0) st;
         (v11_idx, st) = push_vertex (r3 * c1, r3 * s1, - z) (nx_i, ny_i, 0) st;
         st = push_indices [v8_idx, v9_idx, v10_idx, v8_idx, v10_idx, v11_idx] st
     in st)"

subsection \<open>The loop and the function\<close>

text \<open>\<^verbatim>\<open>for (let i = 0; i < teeth * 4; i++)\<close>. The parameter \<^verbatim>\<open>teeth\<close> is a number, not
  necessarily an integer; the loop runs while the counter is below \<^verbatim>\<open>teeth * 4\<close>.\<close>

function gear_loop ::
  "real \<Rightarrow> real \<Rightarrow> real \<Rightarrow> real \<Rightarrow> real \<Rightarrow> real \<Rightarrow> nat \<Rightarrow> gear_vars \<Rightarrow> gear_vars" where
  "gear_loop innerRadius outerRadius width teeth toothRadius angleStep i st =
     (if real i < teeth * 4
      then gear_loop innerRadius outerRadius width teeth toothRadius angleStep (i + 1)
             (gear_segment innerRadius outerRadius width toothRadius angleStep i st)
      else st)"
  by pat_completeness auto
termination
  by (relation "measure (\<lambda>(_, _, _, teeth, _, _, i, _). nat \<lceil>teeth * 4\<rceil> - i)")
     (auto, linarith)

declare gear_loop.simps [simp del]

text \<open>The function has no \<^verbatim>\<open>throw\<close> and no early \<^verbatim>\<open>return\<close>: it is total and its result
  is the mesh.\<close>

definition createGearGeometry ::
  "real \<Rightarrow> real \<Rightarrow> real \<Rightarrow> real \<Rightarrow> real \<Rightarrow> Geometry" where
  "createGearGeometry innerRadius outerRadius width teeth toothDepth =
    (let toothRadius = outerRadius + toothDepth;
         angleStep = (2 * pi) / (teeth * 4);
         st = gear_loop innerRadius outerRadius width teeth toothRadius angleStep 0
                \<lparr>vertices = [], normals = [], indices = [], vertexIndex = 0\<rparr>
     in \<lparr>vertices = vertices st, normals = normals st, indices = indices st\<rparr>)"



subsection \<open>Vocabulary of the statements about the generator\<close>

text \<open>The parameter sets the specification calls valid, with \<^verbatim>\<open>teeth\<close> an integer.\<close>

definition valid_params :: "real \<Rightarrow> real \<Rightarrow> real \<Rightarrow> nat \<Rightarrow> real \<Rightarrow> bool" where
  "valid_params innerRadius outerRadius width teeth toothDepth \<longleftrightarrow>
     0 < innerRadius \<and> innerRadius < outerRadius \<and> 0 < width \<and>
     3 \<le> teeth \<and> teeth \<le> 1000 \<and> 0 \<le> toothDepth"

text \<open>The number of iterations of the loop.\<close>

definition segments :: "real \<Rightarrow> nat" where
  "segments teeth = nat \<lceil>teeth * 4\<rceil>"

text \<open>The radius of the rim at the \<open>k\<close>-th segment boundary.\<close>

definition radius_at :: "real \<Rightarrow> real \<Rightarrow> nat \<Rightarrow> real" where
  "radius_at outerRadius toothRadius k =
     (if k mod 4 = 1 \<or> k mod 4 = 2 then toothRadius else outerRadius)"

text \<open>What one iteration appends to each of the three arrays, in closed form; the lemmas
  \<open>gear_segment_vertices\<close>, \<open>gear_segment_normals\<close> and \<open>gear_segment_indices\<close> below
  prove that the loop body appends exactly these.\<close>

definition segment_vertices ::
  "real \<Rightarrow> real \<Rightarrow> real \<Rightarrow> real \<Rightarrow> real \<Rightarrow> nat \<Rightarrow> real list" where
  "segment_vertices innerRadius outerRadius width toothRadius angleStep i =
    (let a = real i * angleStep; b = real (i + 1) * angleStep;
         r1 = radius_at outerRadius toothRadius i;
         r2 = radius_at outerRadius toothRadius (i + 1);
         r3 = innerRadius; z = width * 0.5
     in [r3 * cos a, r3 * sin a, z,  r1 * cos a, r1 * sin a, z,
         r2 * cos b, r2 * sin b, z,  r3 * cos b, r3 * sin b, z,
         r3 * cos a, r3 * sin a, - z,  r1 * cos a, r1 * sin a, - z,
         r2 * cos b, r2 * sin b, - z,  r3 * cos b, r3 * sin b, - z,
         r1 * cos a, r1 * sin a, z,  r1 * cos a, r1 * sin a, - z,
         r2 * cos b, r2 * sin b, - z,  r2 * cos b, r2 * sin b, z,
         r3 * cos a, r3 * sin a, z,  r3 * cos b, r3 * sin b, z,
         r3 * cos b, r3 * sin b, - z,  r3 * cos a, r3 * sin a, - z])"

definition unit_or_zero :: "real \<Rightarrow> real \<Rightarrow> real list" where
  "unit_or_zero x y = [x / or_one (Math_hypot x y), y / or_one (Math_hypot x y), 0]"

definition segment_normals ::
  "real \<Rightarrow> real \<Rightarrow> real \<Rightarrow> real \<Rightarrow> nat \<Rightarrow> real list list" where
  "segment_normals innerRadius outerRadius toothRadius angleStep i =
    (let a = real i * angleStep; b = real (i + 1) * angleStep;
         r1 = radius_at outerRadius toothRadius i;
         r2 = radius_at outerRadius toothRadius (i + 1);
         r3 = innerRadius;
         no = unit_or_zero (r1 * sin a + r2 * sin b) (- (r1 * cos a + r2 * cos b));
         ni = unit_or_zero (- (r3 * sin a + r3 * sin b)) (r3 * cos a + r3 * cos b)
     in replicate 4 [0, 0, 1] @ replicate 4 [0, 0, - 1] @ replicate 4 no @ replicate 4 ni)"

definition segment_indices :: "nat \<Rightarrow> nat list" where
  "segment_indices v =
     map (\<lambda>k. v + k)
       [0, 1, 2, 0, 2, 3,  4, 6, 5, 4, 7, 6,  8, 9, 10, 8, 10, 11,  12, 13, 14, 12, 14, 15]"


section \<open>The generator in the arithmetic of doubles\<close>

text \<open>
  The length of a normal is decided by what the arithmetic of the platform does with the
  numbers: a product that overflows gives an infinity and then \<^verbatim>\<open>NaN\<close>, a sum below the
  normal range of the doubles is rounded coarsely, and \<^verbatim>\<open>Math.hypot\<close> is as accurate as the
  engine makes it. For the statements about lengths the generator is therefore embedded a
  second time, over an arithmetic that is a parameter.

  The type \<^typ>\<open>'a\<close> stands for the values of type \<^verbatim>\<open>number\<close>: the finite doubles with
  both zeros, the two infinities and \<^verbatim>\<open>NaN\<close>. Each operation the source applies to a
  number is a field of the record:
  \<^item> \<open>js_num\<close>: the double of a numeric literal, of \<^verbatim>\<open>Math.PI\<close> and of the loop counter;
  \<^item> \<open>js_add\<close>, \<open>js_mul\<close>, \<open>js_div\<close>, \<open>js_neg\<close>: \<^verbatim>\<open>+\<close>, \<^verbatim>\<open>*\<close>, \<^verbatim>\<open>/\<close> and unary \<^verbatim>\<open>-\<close>;
  \<^item> \<open>js_lt\<close>: the comparison \<^verbatim>\<open><\<close>;
  \<^item> \<open>js_cos\<close>, \<open>js_sin\<close>, \<open>js_hypot\<close>: \<^verbatim>\<open>Math.cos\<close>, \<^verbatim>\<open>Math.sin\<close>, \<^verbatim>\<open>Math.hypot\<close>;
  \<^item> \<open>js_truthy\<close>: the conversion to a boolean that \<^verbatim>\<open>||\<close> applies to its left operand
    (\<^verbatim>\<open>0\<close>, \<^verbatim>\<open>-0\<close> and \<^verbatim>\<open>NaN\<close> are falsy).

  The last field is not an operation of the program but the reading of its values:
  \<open>js_value x\<close> is the real number a finite double holds, and \<^term>\<open>None\<close> for an infinity
  and for \<^verbatim>\<open>NaN\<close>.

  The definitions assume nothing of the fields. The loop counter and \<^verbatim>\<open>vertexIndex\<close> stay
  natural numbers, as in the first embedding: they are integers that a double holds
  exactly, and \<^verbatim>\<open>i % 4\<close> is exact on them.
\<close>

record 'a arithmetic =
  js_num :: "real \<Rightarrow> 'a"
  js_add :: "'a \<Rightarrow> 'a \<Rightarrow> 'a"
  js_mul :: "'a \<Rightarrow> 'a \<Rightarrow> 'a"
  js_div :: "'a \<Rightarrow> 'a \<Rightarrow> 'a"
  js_neg :: "'a \<Rightarrow> 'a"
  js_lt :: "'a \<Rightarrow> 'a \<Rightarrow> bool"
  js_cos :: "'a \<Rightarrow> 'a"
  js_sin :: "'a \<Rightarrow> 'a"
  js_hypot :: "'a \<Rightarrow> 'a \<Rightarrow> 'a"
  js_truthy :: "'a \<Rightarrow> bool"
  js_value :: "'a \<Rightarrow> real option"

subsection \<open>The mesh, one segment, the loop and the function\<close>

record 'a js_Geometry =
  js_vertices :: "'a list"
  js_normals :: "'a list"
  js_indices :: "nat list"

record 'a js_gear_vars = "'a js_Geometry" +
  js_vertexIndex :: nat

definition js_push_vertex ::
  "'a \<times> 'a \<times> 'a \<Rightarrow> 'a \<times> 'a \<times> 'a \<Rightarrow> 'a js_gear_vars \<Rightarrow> nat \<times> 'a js_gear_vars" where
  "js_push_vertex p n st =
     (case (p, n) of ((x, y, z), (nx, ny, nz)) \<Rightarrow>
        (js_vertexIndex st,
         st\<lparr>js_vertices := js_vertices st @ [x, y, z],
            js_normals := js_normals st @ [nx, ny, nz],
            js_vertexIndex := js_vertexIndex st + 1\<rparr>))"

definition js_push_indices :: "nat list \<Rightarrow> 'a js_gear_vars \<Rightarrow> 'a js_gear_vars" where
  "js_push_indices ks st = st\<lparr>js_indices := js_indices st @ ks\<rparr>"

text \<open>\<^verbatim>\<open>l || 1\<close>: the left operand when it is truthy, the literal \<^verbatim>\<open>1\<close> when it is \<^verbatim>\<open>0\<close>,
  \<^verbatim>\<open>-0\<close> or \<^verbatim>\<open>NaN\<close>.\<close>

definition js_or_one :: "'a arithmetic \<Rightarrow> 'a \<Rightarrow> 'a" where
  "js_or_one A l = (if js_truthy A l then l else js_num A 1)"

definition js_gear_segment ::
  "'a arithmetic \<Rightarrow> 'a \<Rightarrow> 'a \<Rightarrow> 'a \<Rightarrow> 'a \<Rightarrow> 'a \<Rightarrow> nat \<Rightarrow> 'a js_gear_vars
     \<Rightarrow> 'a js_gear_vars" where
  "js_gear_segment A innerRadius outerRadius width toothRadius angleStep i st0 =
    (let angle = js_mul A (js_num A (real i)) angleStep;
         nextAngle = js_mul A (js_add A (js_num A (real i)) (js_num A 1)) angleStep;
         r1 = (if i mod 4 = 1 \<or> i mod 4 = 2 then toothRadius else outerRadius);
         r2 = (if (i + 1) mod 4 = 1 \<or> (i + 1) mod 4 = 2 then toothRadius else outerRadius);
         r3 = innerRadius;
         z = js_mul A width (js_num A 0.5);
         c1 = js_cos A angle; s1 = js_sin A angle;
         c2 = js_cos A nextAngle; s2 = js_sin A nextAngle;
         \<comment> \<open>Front face\<close>
         (v0f_idx, st) = js_push_vertex (js_mul A r3 c1, js_mul A r3 s1, z)
                           (js_num A 0, js_num A 0, js_num A 1) st0;
         (v1f_idx, st) = js_push_vertex (js_mul A r1 c1, js_mul A r1 s1, z)
                           (js_num A 0, js_num A 0, js_num A 1) st;
         (v2f_idx, st) = js_push_vertex (js_mul A r2 c2, js_mul A r2 s2, z)
                           (js_num A 0, js_num A 0, js_num A 1) st;
         (v3f_idx, st) = js_push_vertex (js_mul A r3 c2, js_mul A r3 s2, z)
                           (js_num A 0, js_num A 0, js_num A 1) st;
         st = js_push_indices [v0f_idx, v1f_idx, v2f_idx, v0f_idx, v2f_idx, v3f_idx] st;
         \<comment> \<open>Back face\<close>
         (v0b_idx, st) = js_push_vertex (js_mul A r3 c1, js_mul A r3 s1, js_neg A z)
                           (js_num A 0, js_num A 0, js_neg A (js_num A 1)) st;
         (v1b_idx, st) = js_push_vertex (js_mul A r1 c1, js_mul A r1 s1, js_neg A z)
                           (js_num A 0, js_num A 0, js_neg A (js_num A 1)) st;
         (v2b_idx, st) = js_push_vertex (js_mul A r2 c2, js_mul A r2 s2, js_neg A z)
                           (js_num A 0, js_num A 0, js_neg A (js_num A 1)) st;
         (v3b_idx, st) = js_push_vertex (js_mul A r3 c2, js_mul A r3 s2, js_neg A z)
                           (js_num A 0, js_num A 0, js_neg A (js_num A 1)) st;
         st = js_push_indices [v0b_idx, v2b_idx, v1b_idx, v0b_idx, v3b_idx, v2b_idx] st;
         \<comment> \<open>Outer face\<close>
         n_outer_x = js_add A (js_mul A r1 s1) (js_mul A r2 s2);
         n_outer_y = js_neg A (js_add A (js_mul A r1 c1) (js_mul A r2 c2));
         l_outer = js_or_one A (js_hypot A n_outer_x n_outer_y);
         nx_o = js_div A n_outer_x l_outer; ny_o = js_div A n_outer_y l_outer;
         (v4_idx, st) = js_push_vertex (js_mul A r1 c1, js_mul A r1 s1, z)
                          (nx_o, ny_o, js_num A 0) st;
         (v5_idx, st) = js_push_vertex (js_mul A r1 c1, js_mul A r1 s1, js_neg A z)
                          (nx_o, ny_o, js_num A 0) st;
         (v6_idx, st) = js_push_vertex (js_mul A r2 c2, js_mul A r2 s2, js_neg A z)
                          (nx_o, ny_o, js_num A 0) st;
         (v7_idx, st) = js_push_vertex (js_mul A r2 c2, js_mul A r2 s2, z)
                          (nx_o, ny_o, js_num A 0) st;
         st = js_push_indices [v4_idx, v5_idx, v6_idx, v4_idx, v6_idx, v7_idx] st;
         \<comment> \<open>Inner face\<close>
         n_inner_x = js_neg A (js_add A (js_mul A r3 s1) (js_mul A r3 s2));
         n_inner_y = js_add A (js_mul A r3 c1) (js_mul A r3 c2);
         l_inner = js_or_one A (js_hypot A n_inner_x n_inner_y);
         nx_i = js_div A n_inner_x l_inner; ny_i = js_div A n_inner_y l_inner;
         (v8_idx, st) = js_push_vertex (js_mul A r3 c1, js_mul A r3 s1, z)
                          (nx_i, ny_i, js_num A 0) st;
         (v9_idx, st) = js_push_vertex (js_mul A r3 c2, js_mul A r3 s2, z)
                          (nx_i, ny_i, js_num A 0) st;
         (v10_idx, st) = js_push_vertex (js_mul A r3 c2, js_mul A r3 s2, js_neg A z)
                           (nx_i, ny_i, js_num A 0) st;
         (v11_idx, st) = js_push_vertex (js_mul A r3 c1, js_mul A r3 s1, js_neg A z)
                           (nx_i, ny_i, js_num A 0) st;
         st = js_push_indices [v8_idx, v9_idx, v10_idx, v8_idx, v10_idx, v11_idx] st
     in st)"

text \<open>The loop. With a comparison of which nothing is known the loop need not end (it does
  not for \<^verbatim>\<open>teeth = Infinity\<close>): the result is an \<^typ>\<open>'a option\<close>, and \<^term>\<open>None\<close> stands
  for a run that does not return.\<close>

partial_function (option) js_gear_loop ::
  "'a arithmetic \<Rightarrow> 'a \<Rightarrow> 'a \<Rightarrow> 'a \<Rightarrow> 'a \<Rightarrow> 'a \<Rightarrow> 'a \<Rightarrow> nat \<Rightarrow> 'a js_gear_vars
     \<Rightarrow> 'a js_gear_vars option" where
  "js_gear_loop A innerRadius outerRadius width teeth toothRadius angleStep i st =
     (if js_lt A (js_num A (real i)) (js_mul A teeth (js_num A 4))
      then js_gear_loop A innerRadius outerRadius width teeth toothRadius angleStep (i + 1)
             (js_gear_segment A innerRadius outerRadius width toothRadius angleStep i st)
      else Some st)"


subsection \<open>Exact arithmetic as an instance\<close>



subsection \<open>What the statements about lengths require of the arithmetic\<close>



subsection \<open>Vocabulary of the statements about the normals\<close>








section \<open>The GLB exporter\<close>

subsection \<open>Numbers, typed arrays and the platform\<close>

text \<open>A number held by a \<^verbatim>\<open>Float32Array\<close> or by the bounding box: finite, one of the two
  infinities (the sentinels of the bounding box, or a coordinate beyond the range of a
  32-bit float), or \<^verbatim>\<open>NaN\<close> (what \<^verbatim>\<open>Math.min\<close> makes of \<^verbatim>\<open>undefined\<close>).\<close>

datatype number = Finite real | PosInfinity | NegInfinity | NaN

text \<open>Three operations of the platform are left open. The exporter is a function of
  them, and no property of them is assumed anywhere:
  \<^item> \<open>fround\<close>: the value a \<^verbatim>\<open>Float32Array\<close> element takes when a number is stored in it
    (the nearest 32-bit float);
  \<^item> \<open>float32_bits\<close>: the 32 bits \<^verbatim>\<open>DataView.setFloat32\<close> writes for such a value;
  \<^item> \<open>number_text\<close>: the text \<^verbatim>\<open>JSON.stringify\<close> gives a finite number that is not an
    integer of absolute value below \<open>2\<^sup>5\<^sup>3\<close>.

  A coordinate of the input mesh is a \<^typ>\<open>real\<close>: a mesh that holds \<^verbatim>\<open>-0\<close>, \<^verbatim>\<open>NaN\<close> or an
  infinity is outside this embedding of the exporter.\<close>

record platform =
  fround :: "real \<Rightarrow> number"
  float32_bits :: "number \<Rightarrow> 32 word"
  number_text :: "real \<Rightarrow> string"

type_synonym byte = "8 word"
type_synonym ArrayBuffer = "byte list"

text \<open>\<^verbatim>\<open>new Float32Array(xs)\<close> and \<^verbatim>\<open>new Uint16Array(ks)\<close>: the second reduces each
  value modulo \<open>2\<^sup>1\<^sup>6\<close>, which is what \<^term>\<open>of_nat\<close> into \<^typ>\<open>16 word\<close> does.\<close>

definition Float32Array :: "platform \<Rightarrow> real list \<Rightarrow> number list" where
  "Float32Array P xs = map (fround P) xs"

definition Uint16Array :: "nat list \<Rightarrow> 16 word list" where
  "Uint16Array ks = map of_nat ks"

text \<open>\<^verbatim>\<open>new ArrayBuffer(n)\<close>: \<open>n\<close> bytes, all zero. Allocation is taken to succeed.\<close>

definition new_ArrayBuffer :: "nat \<Rightarrow> ArrayBuffer" where
  "new_ArrayBuffer n = replicate n 0"

text \<open>Reading a typed array beyond its end gives \<^verbatim>\<open>undefined\<close>, which \<^verbatim>\<open>Math.min\<close> and
  \<^verbatim>\<open>Math.max\<close> convert to \<^verbatim>\<open>NaN\<close>.\<close>

definition array_get :: "number list \<Rightarrow> nat \<Rightarrow> number" where
  "array_get xs k = (if k < length xs then xs ! k else NaN)"

fun Math_min :: "number \<Rightarrow> number \<Rightarrow> number" where
  "Math_min NaN _ = NaN"
| "Math_min _ NaN = NaN"
| "Math_min NegInfinity _ = NegInfinity"
| "Math_min _ NegInfinity = NegInfinity"
| "Math_min PosInfinity y = y"
| "Math_min x PosInfinity = x"
| "Math_min (Finite a) (Finite b) = Finite (min a b)"

fun Math_max :: "number \<Rightarrow> number \<Rightarrow> number" where
  "Math_max NaN _ = NaN"
| "Math_max _ NaN = NaN"
| "Math_max PosInfinity _ = PosInfinity"
| "Math_max _ PosInfinity = PosInfinity"
| "Math_max NegInfinity y = y"
| "Math_max x NegInfinity = x"
| "Math_max (Finite a) (Finite b) = Finite (max a b)"

subsection \<open>Writing into a buffer\<close>

text \<open>The bytes of a value, least significant first (every write of the exporter passes
  \<^verbatim>\<open>littleEndian = true\<close>).\<close>

definition le_bytes32 :: "32 word \<Rightarrow> byte list" where
  "le_bytes32 w = [ucast w, ucast (drop_bit 8 w), ucast (drop_bit 16 w), ucast (drop_bit 24 w)]"

definition le_bytes16 :: "16 word \<Rightarrow> byte list" where
  "le_bytes16 w = [ucast w, ucast (drop_bit 8 w)]"

text \<open>A write of several bytes at an offset. \<^verbatim>\<open>DataView.setUint32\<close>, \<^verbatim>\<open>setUint16\<close>,
  \<^verbatim>\<open>setFloat32\<close> and \<^verbatim>\<open>TypedArray.set\<close> throw a \<^verbatim>\<open>RangeError\<close> when the bytes do not fit.\<close>

definition write_bytes :: "ArrayBuffer \<Rightarrow> nat \<Rightarrow> byte list \<Rightarrow> ArrayBuffer option" where
  "write_bytes buf byteOffset bs =
     (if byteOffset + length bs \<le> length buf
      then Some (take byteOffset buf @ bs @ drop (byteOffset + length bs) buf)
      else None)"

text \<open>\<^verbatim>\<open>setUint32\<close> converts its argument to 32 bits: a value of \<open>2\<^sup>3\<^sup>2\<close> or more wraps.\<close>

definition setUint32 :: "ArrayBuffer \<Rightarrow> nat \<Rightarrow> nat \<Rightarrow> ArrayBuffer option" where
  "setUint32 buf byteOffset v = write_bytes buf byteOffset (le_bytes32 (of_nat v))"

definition setUint16 :: "ArrayBuffer \<Rightarrow> nat \<Rightarrow> 16 word \<Rightarrow> ArrayBuffer option" where
  "setUint16 buf byteOffset v = write_bytes buf byteOffset (le_bytes16 v)"

definition setFloat32 :: "platform \<Rightarrow> ArrayBuffer \<Rightarrow> nat \<Rightarrow> number \<Rightarrow> ArrayBuffer option" where
  "setFloat32 P buf byteOffset x = write_bytes buf byteOffset (le_bytes32 (float32_bits P x))"

definition TypedArray_set :: "ArrayBuffer \<Rightarrow> byte list \<Rightarrow> nat \<Rightarrow> ArrayBuffer option" where
  "TypedArray_set buf src offset = write_bytes buf offset src"

text \<open>\<^verbatim>\<open>new TextEncoder().encode(s)\<close>: a \<^typ>\<open>string\<close> is a sequence of 8-bit characters,
  read here as the UTF-8 bytes of the text.\<close>

definition TextEncoder_encode :: "string \<Rightarrow> byte list" where
  "TextEncoder_encode s = map of_char s"

subsection \<open>The bounding box\<close>

text \<open>The body of the inner loop, for one vertex \<open>i\<close> and one axis \<open>j\<close>; the inner loop
  \<^verbatim>\<open>for (let j = 0; j < 3; j++)\<close>; and the outer loop
  \<^verbatim>\<open>for (let i = 0; i < vertexCount; i++)\<close>, where \<^verbatim>\<open>vertexCount = positions.length / 3\<close>
  need not be an integer.\<close>

definition bbox_axis ::
  "number list \<Rightarrow> nat \<Rightarrow> nat \<Rightarrow> number list \<times> number list \<Rightarrow> number list \<times> number list" where
  "bbox_axis positions i j mm =
     (case mm of (minPos, maxPos) \<Rightarrow>
        (let v = array_get positions (i * 3 + j)
         in (minPos[j := Math_min (minPos ! j) v], maxPos[j := Math_max (maxPos ! j) v])))"

definition bbox_vertex ::
  "number list \<Rightarrow> nat \<Rightarrow> number list \<times> number list \<Rightarrow> number list \<times> number list" where
  "bbox_vertex positions i mm = fold (bbox_axis positions i) [0, 1, 2] mm"

function bbox_loop ::
  "number list \<Rightarrow> real \<Rightarrow> nat \<Rightarrow> number list \<times> number list \<Rightarrow> number list \<times> number list" where
  "bbox_loop positions vertexCount i mm =
     (if real i < vertexCount
      then bbox_loop positions vertexCount (i + 1) (bbox_vertex positions i mm)
      else mm)"
  by pat_completeness auto
termination
  by (relation "measure (\<lambda>(_, vertexCount, i, _). nat \<lceil>vertexCount\<rceil> - i)")
     (auto, linarith)

declare bbox_loop.simps [simp del]

subsection \<open>The binary buffer\<close>

text \<open>The function \<^verbatim>\<open>exportGLB\<close> is embedded in three parts, which follow its own
  comments: \<^verbatim>\<open>Create the binary buffer\<close>, \<^verbatim>\<open>Create the JSON chunk\<close> (with the bounding
  box it needs) and \<^verbatim>\<open>Create the final GLB file\<close>. Each part repeats the constants of
  the function it uses.

  The three copy loops of the first part. Each threads the buffer and \<^verbatim>\<open>byteOffset\<close>.\<close>

fun put_floats ::
  "platform \<Rightarrow> number list \<Rightarrow> ArrayBuffer \<times> nat \<Rightarrow> (ArrayBuffer \<times> nat) option" where
  "put_floats P [] (buf, byteOffset) = Some (buf, byteOffset)"
| "put_floats P (x # xs) (buf, byteOffset) =
     do { buf' \<leftarrow> setFloat32 P buf byteOffset x;
          put_floats P xs (buf', byteOffset + 4) }"

fun put_indices ::
  "16 word list \<Rightarrow> ArrayBuffer \<times> nat \<Rightarrow> (ArrayBuffer \<times> nat) option" where
  "put_indices [] (buf, byteOffset) = Some (buf, byteOffset)"
| "put_indices (k # ks) (buf, byteOffset) =
     do { buf' \<leftarrow> setUint16 buf byteOffset k;
          put_indices ks (buf', byteOffset + 2) }"

definition exportGLB_binaryBuffer :: "platform \<Rightarrow> Geometry \<Rightarrow> ArrayBuffer option" where
  "exportGLB_binaryBuffer P g =
    (let positions = Float32Array P (vertices g);
         normalData = Float32Array P (normals g);
         indexData = Uint16Array (indices g);
         positionsByteOffset = 0 :: nat;
         normalsByteOffset = 4 * length positions;
         indicesByteOffset = normalsByteOffset + 4 * length normalData;
         binaryBufferLength = indicesByteOffset + 2 * length indexData;
         binaryBuffer = new_ArrayBuffer binaryBufferLength
     in do {
       (binaryBuffer, byteOffset) \<leftarrow> put_floats P positions (binaryBuffer, 0);
       (binaryBuffer, byteOffset) \<leftarrow> put_floats P normalData (binaryBuffer, byteOffset);
       (binaryBuffer, byteOffset) \<leftarrow> put_indices indexData (binaryBuffer, byteOffset);
       Some binaryBuffer
     })"

subsection \<open>The JSON chunk\<close>

datatype json =
  JNumber number
| JString string
| JArray "json list"
| JObject "(string \<times> json) list"

definition digit_char :: "nat \<Rightarrow> char" where
  "digit_char d = ''0123456789'' ! d"

fun decimal :: "nat \<Rightarrow> string" where
  "decimal n = (if n < 10 then [digit_char n] else decimal (n div 10) @ [digit_char (n mod 10)])"

declare decimal.simps [simp del]

text \<open>The text of a finite number: its decimal digits for an integer of absolute value below
  \<open>2\<^sup>5\<^sup>3\<close>, the text the platform gives otherwise (from \<open>2\<^sup>5\<^sup>3\<close> on the digits printed
  are the shortest that read back as the same double, not those of the integer).\<close>

definition Number_toString :: "platform \<Rightarrow> real \<Rightarrow> string" where
  "Number_toString P x =
     (if x \<in> \<int> \<and> \<bar>x\<bar> < 2 ^ 53
      then (if x < 0 then ''-'' @ decimal (nat (- \<lfloor>x\<rfloor>)) else decimal (nat \<lfloor>x\<rfloor>))
      else number_text P x)"

text \<open>A string between double quotes. The property names and string values of the
  exporter's object contain no character that JSON escapes.\<close>

definition quote :: "string \<Rightarrow> string" where
  "quote s = CHR 0x22 # s @ [CHR 0x22]"

fun commas :: "string list \<Rightarrow> string" where
  "commas [] = []"
| "commas [s] = s"
| "commas (s # t # ss) = s @ '','' @ commas (t # ss)"

text \<open>\<^verbatim>\<open>JSON.stringify\<close>: no white space, properties in the order of the object literal,
  \<^verbatim>\<open>null\<close> for a number that is not finite.\<close>

fun JSON_stringify :: "platform \<Rightarrow> json \<Rightarrow> string" where
  "JSON_stringify P (JNumber (Finite x)) = Number_toString P x"
| "JSON_stringify P (JNumber _) = ''null''"
| "JSON_stringify P (JString s) = quote s"
| "JSON_stringify P (JArray js) = ''['' @ commas (map (JSON_stringify P) js) @ '']''"
| "JSON_stringify P (JObject kvs) =
     ''{'' @ commas (map (\<lambda>(k, v). quote k @ '':'' @ JSON_stringify P v) kvs) @ ''}''"

abbreviation JNat :: "nat \<Rightarrow> json" where
  "JNat n \<equiv> JNumber (Finite (real n))"

definition exportGLB_json :: "platform \<Rightarrow> Geometry \<Rightarrow> json" where
  "exportGLB_json P g =
    (let positions = Float32Array P (vertices g);
         normalData = Float32Array P (normals g);
         indexData = Uint16Array (indices g);
         vertexCount = real (length positions) / 3;
         (minPos, maxPos) =
            bbox_loop positions vertexCount 0
              ([PosInfinity, PosInfinity, PosInfinity], [NegInfinity, NegInfinity, NegInfinity]);
         positionsByteOffset = 0 :: nat;
         normalsByteOffset = 4 * length positions;
         indicesByteOffset = normalsByteOffset + 4 * length normalData;
         binaryBufferLength = indicesByteOffset + 2 * length indexData
     in JObject
         [(''asset'', JObject [(''version'', JString ''2.0'')]),
          (''scenes'', JArray [JObject [(''nodes'', JArray [JNat 0])]]),
          (''nodes'', JArray [JObject [(''mesh'', JNat 0)]]),
          (''meshes'', JArray [JObject [(''primitives'', JArray [JObject
              [(''attributes'', JObject [(''POSITION'', JNat 1), (''NORMAL'', JNat 2)]),
               (''indices'', JNat 0)]])]]),
          (''buffers'', JArray [JObject [(''byteLength'', JNat binaryBufferLength)]]),
          (''bufferViews'', JArray
             [JObject [(''buffer'', JNat 0), (''byteOffset'', JNat indicesByteOffset),
                       (''byteLength'', JNat (2 * length indexData)), (''target'', JNat 34963)],
              JObject [(''buffer'', JNat 0), (''byteOffset'', JNat positionsByteOffset),
                       (''byteLength'', JNat (4 * length positions)), (''target'', JNat 34962)],
              JObject [(''buffer'', JNat 0), (''byteOffset'', JNat normalsByteOffset),
                       (''byteLength'', JNat (4 * length normalData)), (''target'', JNat 34962)]]),
          (''accessors'', JArray
             [JObject [(''bufferView'', JNat 0), (''componentType'', JNat 5123),
                       (''count'', JNat (length indexData)), (''type'', JString ''SCALAR'')],
              JObject [(''bufferView'', JNat 1), (''componentType'', JNat 5126),
                       (''count'', JNumber (Finite vertexCount)), (''type'', JString ''VEC3''),
                       (''min'', JArray (map JNumber minPos)),
                       (''max'', JArray (map JNumber maxPos))],
              JObject [(''bufferView'', JNat 2), (''componentType'', JNat 5126),
                       (''count'', JNumber (Finite vertexCount)), (''type'', JString ''VEC3'')]])])"

subsection \<open>The container\<close>

text \<open>\<^verbatim>\<open>for (let i = jsonByteLength; i < jsonChunkLength; i++) glbBytes[offset + i] = 0x20\<close>.
  An indexed store into a typed array beyond its end is ignored, as \<^term>\<open>list_update\<close> is.\<close>

function pad_loop :: "nat \<Rightarrow> nat \<Rightarrow> nat \<Rightarrow> ArrayBuffer \<Rightarrow> ArrayBuffer" where
  "pad_loop offset jsonChunkLength i glbBytes =
     (if i < jsonChunkLength
      then pad_loop offset jsonChunkLength (i + 1) (glbBytes[offset + i := 0x20])
      else glbBytes)"
  by pat_completeness auto
termination
  by (relation "measure (\<lambda>(_, jsonChunkLength, i, _). jsonChunkLength - i)") auto

declare pad_loop.simps [simp del]

text \<open>The last part of the function, from \<^verbatim>\<open>const jsonString = JSON.stringify(json)\<close>
  on, given the text of the JSON object and the binary buffer, whose length is
  \<^verbatim>\<open>binaryBufferLength\<close>, the length it was allocated with. The \<^verbatim>\<open>DataView\<close> and the
  \<^verbatim>\<open>Uint8Array\<close> are two views of the one buffer \<^verbatim>\<open>glbBuffer\<close>.\<close>

definition exportGLB_container :: "string \<Rightarrow> ArrayBuffer \<Rightarrow> ArrayBuffer option" where
  "exportGLB_container jsonString binaryBuffer =
    (let binaryBufferLength = length binaryBuffer;
         jsonByteLength = length (TextEncoder_encode jsonString);
         headerByteLength = 12 :: nat;
         jsonChunkLength = nat \<lceil>real jsonByteLength / 4\<rceil> * 4;
         binaryChunkLength = binaryBufferLength;
         totalByteLength = headerByteLength + 8 + jsonChunkLength + 8 + binaryChunkLength;
         glbBuffer = new_ArrayBuffer totalByteLength
     in do {
       glbBuffer \<leftarrow> setUint32 glbBuffer 0 0x46546C67;
       glbBuffer \<leftarrow> setUint32 glbBuffer 4 2;
       glbBuffer \<leftarrow> setUint32 glbBuffer 8 totalByteLength;
       let offset = headerByteLength;
       glbBuffer \<leftarrow> setUint32 glbBuffer offset jsonChunkLength;
       let offset = offset + 4;
       glbBuffer \<leftarrow> setUint32 glbBuffer offset 0x4E4F534A;
       let offset = offset + 4;
       let jsonBytes = TextEncoder_encode jsonString;
       glbBuffer \<leftarrow> TypedArray_set glbBuffer jsonBytes offset;
       let glbBuffer = pad_loop offset jsonChunkLength jsonByteLength glbBuffer;
       let offset = offset + jsonChunkLength;
       glbBuffer \<leftarrow> setUint32 glbBuffer offset binaryChunkLength;
       let offset = offset + 4;
       glbBuffer \<leftarrow> setUint32 glbBuffer offset 0x004E4942;
       let offset = offset + 4;
       glbBuffer \<leftarrow> TypedArray_set glbBuffer binaryBuffer offset;
       Some glbBuffer
     })"

text \<open>The whole function. Its result is the content of the \<^verbatim>\<open>Blob\<close>.\<close>

definition exportGLB :: "platform \<Rightarrow> Geometry \<Rightarrow> ArrayBuffer option" where
  "exportGLB P g =
     do { binaryBuffer \<leftarrow> exportGLB_binaryBuffer P g;
          exportGLB_container (JSON_stringify P (exportGLB_json P g)) binaryBuffer }"

subsection \<open>Vocabulary of the statements about the exporter\<close>

text \<open>Reading a blob back: the number a run of bytes stands for, least significant byte
  first, and the 32-bit and 16-bit fields at an offset.\<close>

definition le_value :: "byte list \<Rightarrow> nat" where
  "le_value bs = foldr (\<lambda>b acc. unat b + 256 * acc) bs 0"

definition u32_at :: "byte list \<Rightarrow> nat \<Rightarrow> nat" where
  "u32_at blob off = le_value (take 4 (drop off blob))"

definition u16_at :: "byte list \<Rightarrow> nat \<Rightarrow> nat" where
  "u16_at blob off = le_value (take 2 (drop off blob))"

text \<open>Reading the JSON object: a property of an object, and the \<^verbatim>\<open>count\<close> of each entry
  of \<^verbatim>\<open>accessors\<close>.\<close>

fun json_get :: "string \<Rightarrow> json \<Rightarrow> json option" where
  "json_get k (JObject kvs) = map_of kvs k"
| "json_get k _ = None"

definition accessor_counts :: "json \<Rightarrow> json option list" where
  "accessor_counts j =
     (case json_get ''accessors'' j of
        Some (JArray accessors) \<Rightarrow> map (json_get ''count'') accessors
      | _ \<Rightarrow> [])"

text \<open>The content of the binary buffer and of the container in closed form; the lemmas
  \<open>exportGLB_binaryBuffer_eq\<close>, \<open>exportGLB_container_eq\<close> and \<open>exportGLB_eq\<close> below prove
  that the writes of the exporter produce exactly these bytes.\<close>

definition float_bytes :: "platform \<Rightarrow> number list \<Rightarrow> byte list" where
  "float_bytes P xs = concat (map (\<lambda>x. le_bytes32 (float32_bits P x)) xs)"

definition index_bytes :: "16 word list \<Rightarrow> byte list" where
  "index_bytes ks = concat (map le_bytes16 ks)"

definition binary_payload :: "platform \<Rightarrow> Geometry \<Rightarrow> byte list" where
  "binary_payload P g =
     float_bytes P (Float32Array P (vertices g)) @
     float_bytes P (Float32Array P (normals g)) @
     index_bytes (Uint16Array (indices g))"

definition jsonChunkLength_of :: "nat \<Rightarrow> nat" where
  "jsonChunkLength_of jsonByteLength = nat \<lceil>real jsonByteLength / 4\<rceil> * 4"

definition glb_head :: "string \<Rightarrow> nat \<Rightarrow> byte list" where
  "glb_head jsonString binaryLength =
    (let n = length jsonString; L = jsonChunkLength_of n
     in le_bytes32 0x46546C67 @ le_bytes32 2 @ le_bytes32 (of_nat (12 + 8 + L + 8 + binaryLength)) @
        le_bytes32 (of_nat L) @ le_bytes32 0x4E4F534A @
        TextEncoder_encode jsonString @ replicate (L - n) 0x20)"

definition glb_layout :: "string \<Rightarrow> byte list \<Rightarrow> byte list" where
  "glb_layout jsonString bin =
    (let n = length jsonString; L = jsonChunkLength_of n
     in le_bytes32 0x46546C67 @ le_bytes32 2 @ le_bytes32 (of_nat (12 + 8 + L + 8 + length bin)) @
        le_bytes32 (of_nat L) @ le_bytes32 0x4E4F534A @
        TextEncoder_encode jsonString @ replicate (L - n) 0x20 @
        le_bytes32 (of_nat (length bin)) @ le_bytes32 0x004E4942 @ bin)"

text \<open>The mesh with no vertex and no index, and the text of its JSON object.\<close>

definition empty_mesh :: Geometry where
  "empty_mesh = \<lparr>vertices = [], normals = [], indices = []\<rparr>"

definition empty_gltf_text :: string where
  \<open>empty_gltf_text =
    ''{"asset":{"version":"2.0"},"scenes":[{"nodes":[0]}],"nodes":[{"mesh":0}],"meshes":[{"primitives":[{"attributes":{"POSITION":1,"NORMAL":2},"indices":0}]}],"buffers":[{"byteLength":0}],"bufferViews":[{"buffer":0,"byteOffset":0,"byteLength":0,"target":34963},{"buffer":0,"byteOffset":0,"byteLength":0,"target":34962},{"buffer":0,"byteOffset":0,"byteLength":0,"target":34962}],"accessors":[{"bufferView":0,"componentType":5123,"count":0,"type":"SCALAR"},{"bufferView":1,"componentType":5126,"count":0,"type":"VEC3","min":[null,null,null],"max":[null,null,null]},{"bufferView":2,"componentType":5126,"count":0,"type":"VEC3"}]}''\<close>

text \<open>A reader of JSON text, written without reference to the writer above. It accepts
  a part of the JSON grammar only: \<^verbatim>\<open>null\<close>, integers without sign, strings without escape
  sequences, arrays and objects, with no white space. What it accepts is well-formed
  JSON. The recursion is bounded by a count of nested and consecutive values.\<close>

datatype jvalue =
  VNull
| VNum nat
| VStr string
| VArr "jvalue list"
| VObj "(string \<times> jvalue) list"

definition is_digit :: "char \<Rightarrow> bool" where
  "is_digit c \<longleftrightarrow> c \<in> set ''0123456789''"

definition digit_value :: "char \<Rightarrow> nat" where
  "digit_value c = of_char c - 48"

fun read_digits :: "nat \<Rightarrow> string \<Rightarrow> nat \<times> string" where
  "read_digits acc [] = (acc, [])"
| "read_digits acc (c # cs) =
     (if is_digit c then read_digits (10 * acc + digit_value c) cs else (acc, c # cs))"

definition read_number :: "string \<Rightarrow> (nat \<times> string) option" where
  "read_number s =
     (case s of
        [] \<Rightarrow> None
      | c # cs \<Rightarrow>
          if \<not> is_digit c then None
          else if c = CHR ''0'' \<and> (case cs of [] \<Rightarrow> False | d # _ \<Rightarrow> is_digit d) then None
          else Some (read_digits 0 s))"

fun read_string :: "string \<Rightarrow> (string \<times> string) option" where
  "read_string [] = None"
| "read_string (c # cs) =
     (if c = CHR 0x22 then Some ([], cs)
      else if c = CHR 0x5C \<or> (of_char c :: nat) < 32 then None
      else (case read_string cs of
              None \<Rightarrow> None
            | Some (s, rest) \<Rightarrow> Some (c # s, rest)))"

fun read_value :: "nat \<Rightarrow> string \<Rightarrow> (jvalue \<times> string) option"
  and read_elements :: "nat \<Rightarrow> string \<Rightarrow> (jvalue list \<times> string) option"
  and read_members :: "nat \<Rightarrow> string \<Rightarrow> ((string \<times> jvalue) list \<times> string) option" where
  "read_value 0 s = None"
| "read_value (Suc fuel) s =
     (if take 4 s = ''null'' then Some (VNull, drop 4 s)
      else if take 1 s = [CHR 0x22] then
        (case read_string (drop 1 s) of
           None \<Rightarrow> None
         | Some (str, rest) \<Rightarrow> Some (VStr str, rest))
      else if take 2 s = ''[]'' then Some (VArr [], drop 2 s)
      else if take 1 s = ''['' then
        (case read_elements fuel (drop 1 s) of
           None \<Rightarrow> None
         | Some (vs, rest) \<Rightarrow>
             if take 1 rest = '']'' then Some (VArr vs, drop 1 rest) else None)
      else if take 2 s = ''{}'' then Some (VObj [], drop 2 s)
      else if take 1 s = ''{'' then
        (case read_members fuel (drop 1 s) of
           None \<Rightarrow> None
         | Some (kvs, rest) \<Rightarrow>
             if take 1 rest = ''}'' then Some (VObj kvs, drop 1 rest) else None)
      else (case read_number s of
              None \<Rightarrow> None
            | Some (n, rest) \<Rightarrow> Some (VNum n, rest)))"
| "read_elements 0 s = None"
| "read_elements (Suc fuel) s =
     (case read_value fuel s of
        None \<Rightarrow> None
      | Some (v, rest) \<Rightarrow>
          if take 1 rest = '','' then
            (case read_elements fuel (drop 1 rest) of
               None \<Rightarrow> None
             | Some (vs, rest') \<Rightarrow> Some (v # vs, rest'))
          else Some ([v], rest))"
| "read_members 0 s = None"
| "read_members (Suc fuel) s =
     (if take 1 s = [CHR 0x22] then
        (case read_string (drop 1 s) of
           None \<Rightarrow> None
         | Some (k, rest) \<Rightarrow>
             if take 1 rest = '':'' then
               (case read_value fuel (drop 1 rest) of
                  None \<Rightarrow> None
                | Some (v, rest') \<Rightarrow>
                    if take 1 rest' = '','' then
                      (case read_members fuel (drop 1 rest') of
                         None \<Rightarrow> None
                       | Some (kvs, rest'') \<Rightarrow> Some ((k, v) # kvs, rest''))
                    else Some ([(k, v)], rest'))
             else None)
      else None)"

definition JSON_parse :: "string \<Rightarrow> jvalue option" where
  "JSON_parse s =
     (case read_value (length s) s of
        Some (v, []) \<Rightarrow> Some v
      | _ \<Rightarrow> None)"

text \<open>What the reader is to find in the text of the empty mesh.\<close>

definition empty_gltf_value :: jvalue where
  "empty_gltf_value =
    VObj
    [(''asset'', VObj [(''version'', VStr ''2.0'')]),
     (''scenes'', VArr [VObj [(''nodes'', VArr [VNum 0])]]),
     (''nodes'', VArr [VObj [(''mesh'', VNum 0)]]),
     (''meshes'', VArr [VObj [(''primitives'', VArr [VObj
          [(''attributes'', VObj [(''POSITION'', VNum 1), (''NORMAL'', VNum 2)]),
           (''indices'', VNum 0)]])]]),
     (''buffers'', VArr [VObj [(''byteLength'', VNum 0)]]),
     (''bufferViews'', VArr
       [VObj [(''buffer'', VNum 0), (''byteOffset'', VNum 0),
              (''byteLength'', VNum 0), (''target'', VNum 34963)],
        VObj [(''buffer'', VNum 0), (''byteOffset'', VNum 0),
              (''byteLength'', VNum 0), (''target'', VNum 34962)],
        VObj [(''buffer'', VNum 0), (''byteOffset'', VNum 0),
              (''byteLength'', VNum 0), (''target'', VNum 34962)]]),
     (''accessors'', VArr
       [VObj [(''bufferView'', VNum 0), (''componentType'', VNum 5123),
              (''count'', VNum 0), (''type'', VStr ''SCALAR'')],
        VObj [(''bufferView'', VNum 1), (''componentType'', VNum 5126),
              (''count'', VNum 0), (''type'', VStr ''VEC3''),
              (''min'', VArr [VNull, VNull, VNull]),
              (''max'', VArr [VNull, VNull, VNull])],
        VObj [(''bufferView'', VNum 2), (''componentType'', VNum 5126),
              (''count'', VNum 0), (''type'', VStr ''VEC3'')]])]"

text \<open>A platform for the closed statements below. Their meshes have no coordinate other
  than 0, which a 32-bit float stores as 0 and encodes by 32 zero bits; their JSON
  objects hold integers only. On these inputs the three operations below are those of
  every platform, and their other values are never used.\<close>

definition zero_platform :: platform where
  "zero_platform = \<lparr>fround = Finite, float32_bits = (\<lambda>_. 0), number_text = (\<lambda>_. [])\<rparr>"

section \<open>Properties of the generator\<close>

subsection \<open>What one iteration appends\<close>

lemma gear_segment_vertexIndex:
  "vertexIndex (gear_segment ir orad w tr step i st) = vertexIndex st + 16"
  unfolding gear_segment_def radius_at_def [symmetric]
  by (simp add: push_vertex_def push_indices_def Let_def)

lemma gear_segment_indices:
  "indices (gear_segment ir orad w tr step i st) = indices st @ segment_indices (vertexIndex st)"
  unfolding gear_segment_def radius_at_def [symmetric]
  by (simp add: push_vertex_def push_indices_def Let_def segment_indices_def)

lemma gear_segment_vertices:
  "vertices (gear_segment ir orad w tr step i st) =
     vertices st @ segment_vertices ir orad w tr step i"
  unfolding gear_segment_def radius_at_def [symmetric]
  by (simp add: push_vertex_def push_indices_def Let_def segment_vertices_def)

lemma gear_segment_normals:
  "normals (gear_segment ir orad w tr step i st) =
     normals st @ concat (segment_normals ir orad tr step i)"
  unfolding gear_segment_def radius_at_def [symmetric]
  by (simp add: push_vertex_def push_indices_def Let_def segment_normals_def
      unit_or_zero_def numeral_eq_Suc)

subsection \<open>The loop\<close>

lemma loop_guard: "real i < t * 4 \<longleftrightarrow> i < nat \<lceil>t * 4\<rceil>"
proof -
  have "i < nat \<lceil>t * 4\<rceil> \<longleftrightarrow> int i < \<lceil>t * 4\<rceil>"
    by linarith
  also have "\<dots> \<longleftrightarrow> real i < t * 4"
    by (simp add: less_ceiling_iff)
  finally show ?thesis by simp
qed

lemma gear_loop_vertexIndex:
  "vertexIndex (gear_loop ir orad w t tr step i st) = vertexIndex st + 16 * (nat \<lceil>t * 4\<rceil> - i)"
proof (induction ir orad w t tr step i st rule: gear_loop.induct)
  case (1 ir orad w t tr step i st)
  show ?case
  proof (cases "real i < t * 4")
    case True
    then have "i < nat \<lceil>t * 4\<rceil>" by (simp add: loop_guard)
    with True 1 show ?thesis
      by (subst gear_loop.simps) (simp add: gear_segment_vertexIndex)
  next
    case False
    then have "\<not> i < nat \<lceil>t * 4\<rceil>" by (simp add: loop_guard)
    with False show ?thesis
      by (subst gear_loop.simps) simp
  qed
qed

lemma gear_loop_vertices:
  "vertices (gear_loop ir orad w t tr step i st) =
     vertices st @ concat (map (segment_vertices ir orad w tr step) [i..<nat \<lceil>t * 4\<rceil>])"
proof (induction ir orad w t tr step i st rule: gear_loop.induct)
  case (1 ir orad w t tr step i st)
  show ?case
  proof (cases "real i < t * 4")
    case True
    then have "i < nat \<lceil>t * 4\<rceil>" by (simp add: loop_guard)
    with True 1 show ?thesis
      by (subst gear_loop.simps) (simp add: gear_segment_vertices upt_conv_Cons)
  next
    case False
    then have "\<not> i < nat \<lceil>t * 4\<rceil>" by (simp add: loop_guard)
    with False show ?thesis
      by (subst gear_loop.simps) simp
  qed
qed

lemma gear_loop_normals:
  "normals (gear_loop ir orad w t tr step i st) =
     normals st @ concat (concat (map (segment_normals ir orad tr step) [i..<nat \<lceil>t * 4\<rceil>]))"
proof (induction ir orad w t tr step i st rule: gear_loop.induct)
  case (1 ir orad w t tr step i st)
  show ?case
  proof (cases "real i < t * 4")
    case True
    then have "i < nat \<lceil>t * 4\<rceil>" by (simp add: loop_guard)
    with True 1 show ?thesis
      by (subst gear_loop.simps) (simp add: gear_segment_normals upt_conv_Cons)
  next
    case False
    then have "\<not> i < nat \<lceil>t * 4\<rceil>" by (simp add: loop_guard)
    with False show ?thesis
      by (subst gear_loop.simps) simp
  qed
qed

lemma gear_loop_indices:
  "indices (gear_loop ir orad w t tr step i st) =
     indices st @
     concat (map (\<lambda>k. segment_indices (vertexIndex st + 16 * (k - i))) [i..<nat \<lceil>t * 4\<rceil>])"
proof (induction ir orad w t tr step i st rule: gear_loop.induct)
  case (1 ir orad w t tr step i st)
  show ?case
  proof (cases "real i < t * 4")
    case True
    then have lt: "i < nat \<lceil>t * 4\<rceil>" by (simp add: loop_guard)
    have shift: "map (\<lambda>k. segment_indices (vertexIndex st + 16 + 16 * (k - Suc i))) [Suc i..<nat \<lceil>t * 4\<rceil>]
        = map (\<lambda>k. segment_indices (vertexIndex st + 16 * (k - i))) [Suc i..<nat \<lceil>t * 4\<rceil>]"
      by (rule map_cong) (auto intro!: arg_cong [where f = segment_indices])
    from True 1 lt show ?thesis
      by (subst gear_loop.simps)
         (simp add: gear_segment_indices gear_segment_vertexIndex upt_conv_Cons shift)
  next
    case False
    then have "\<not> i < nat \<lceil>t * 4\<rceil>" by (simp add: loop_guard)
    with False show ?thesis
      by (subst gear_loop.simps) simp
  qed
qed

subsection \<open>The three arrays of the result, in closed form\<close>

lemma createGearGeometry_vertices:
  "vertices (createGearGeometry ir orad w t td) =
     concat (map (segment_vertices ir orad w (orad + td) (2 * pi / (t * 4))) [0..<segments t])"
  by (simp add: createGearGeometry_def Let_def gear_loop_vertices segments_def)

lemma createGearGeometry_normals:
  "normals (createGearGeometry ir orad w t td) =
     concat (concat (map (segment_normals ir orad (orad + td) (2 * pi / (t * 4))) [0..<segments t]))"
  by (simp add: createGearGeometry_def Let_def gear_loop_normals segments_def)

lemma createGearGeometry_indices:
  "indices (createGearGeometry ir orad w t td) =
     concat (map (\<lambda>k. segment_indices (16 * k)) [0..<segments t])"
  by (simp add: createGearGeometry_def Let_def gear_loop_indices segments_def)

subsection \<open>Lists made of blocks of one length\<close>

lemma length_concat_const:
  "(\<And>k. length (f k) = c) \<Longrightarrow> length (concat (map f xs)) = c * length xs"
  by (induction xs) simp_all

lemma drop_concat_blocks:
  assumes len: "\<And>k. length (f k) = c" and le: "i \<le> n"
  shows "drop (c * i) (concat (map f [0..<n])) = concat (map f [i..<n])"
proof -
  have split: "[0..<n] = [0..<i] @ [i..<n]"
    using le by (metis le_add_diff_inverse upt_add_eq_append zero_le)
  have "length (concat (map f [0..<i])) = c * i"
    using len by (simp add: length_concat_const)
  then show ?thesis
    by (subst split) simp
qed

lemma concat_concat_map:
  "concat (concat (map f xs)) = concat (map (\<lambda>k. concat (f k)) xs)"
  by (induction xs) simp_all



subsection \<open>Sizes\<close>

lemma length_segment_vertices [simp]:
  "length (segment_vertices ir orad w tr step i) = 48"
  by (simp add: segment_vertices_def Let_def)

lemma length_segment_normals [simp]:
  "length (segment_normals ir orad tr step i) = 16"
  by (simp add: segment_normals_def Let_def)

lemma length_concat_segment_normals [simp]:
  "length (concat (segment_normals ir orad tr step i)) = 48"
  by (simp add: segment_normals_def Let_def unit_or_zero_def length_concat sum_list_replicate)

lemma length_segment_indices [simp]: "length (segment_indices v) = 24"
  by (simp add: segment_indices_def)

lemma length_vertices:
  "length (vertices (createGearGeometry ir orad w t td)) = 48 * segments t"
  by (simp add: createGearGeometry_vertices length_concat_const)

lemma length_normals:
  "length (normals (createGearGeometry ir orad w t td)) = 48 * segments t"
  by (simp add: createGearGeometry_normals concat_concat_map length_concat_const)

lemma length_indices:
  "length (indices (createGearGeometry ir orad w t td)) = 24 * segments t"
  by (simp add: createGearGeometry_indices length_concat_const)

lemma segments_of_nat [simp]: "segments (real n) = 4 * n"
proof -
  have "real n * 4 = real (n * 4)" by simp
  then have "\<lceil>real n * 4\<rceil> = int (n * 4)"
    by (simp only: ceiling_of_nat)
  then show ?thesis by (simp add: segments_def)
qed

lemma segment_block:
  assumes "i < segments t"
  shows "drop (48 * i) (vertices (createGearGeometry ir orad w t td)) =
    segment_vertices ir orad w (orad + td) (2 * pi / (t * 4)) i @
    concat (map (segment_vertices ir orad w (orad + td) (2 * pi / (t * 4))) [Suc i..<segments t])"
proof -
  have "drop (48 * i) (vertices (createGearGeometry ir orad w t td)) =
      concat (map (segment_vertices ir orad w (orad + td) (2 * pi / (t * 4))) [i..<segments t])"
    unfolding createGearGeometry_vertices
    using assms by (intro drop_concat_blocks) simp_all
  with assms show ?thesis
    by (simp add: upt_conv_Cons)
qed

subsection \<open>Normals in the arithmetic of doubles\<close>





text \<open>The loop returns as soon as the comparison fails for some value of the counter.\<close>

lemma js_gear_loop_returns:
  assumes "\<not> js_lt A (js_num A (real n)) (js_mul A t (js_num A 4))"
  shows "i \<le> n \<Longrightarrow> \<exists>st'. js_gear_loop A ir orad w t tr step i st = Some st'"
proof (induction "n - i" arbitrary: i st)
  case 0
  then have "i = n"
    by simp
  with assms show ?case
    by (subst js_gear_loop.simps) simp
next
  case (Suc d)
  show ?case
  proof (cases "js_lt A (js_num A (real i)) (js_mul A t (js_num A 4))")
    case True
    from Suc(2,3) have "d = n - (i + 1)" "i + 1 \<le> n"
      by simp_all
    from Suc(1) [OF this] True show ?thesis
      by (subst js_gear_loop.simps) simp
  next
    case False
    then show ?thesis
      by (subst js_gear_loop.simps) simp
  qed
qed














subsection \<open>The claims about the generator\<close>



text \<open>
  \<^bold>\<open>C3\<close>: for every valid parameter set with an integer \<open>teeth\<close> in \<open>[3, 1000]\<close> the mesh has
  \<open>teeth * 4 * 16\<close> vertices, that is \<open>teeth * 4 * 16 * 3\<close> position components, as many
  normal components as position components, and \<open>teeth * 4 * 24\<close> indices.
\<close>

theorem C3_output_size:
  assumes "valid_params innerRadius outerRadius width teeth toothDepth"
  shows "length (vertices (createGearGeometry innerRadius outerRadius width (real teeth) toothDepth))
           = teeth * 4 * 16 * 3
       \<and> length (normals (createGearGeometry innerRadius outerRadius width (real teeth) toothDepth))
           = length (vertices (createGearGeometry innerRadius outerRadius width (real teeth) toothDepth))
       \<and> length (indices (createGearGeometry innerRadius outerRadius width (real teeth) toothDepth))
           = teeth * 4 * 24"
  by (simp add: length_vertices length_normals length_indices)

text \<open>The default parameters of the application: 768 vertices and 1152 indices.\<close>

theorem C3_output_size_witness:
  "valid_params (1/2) 1 (3/10) 12 (1/5)
   \<and> length (vertices (createGearGeometry (1/2) 1 (3/10) 12 (1/5))) = 2304
   \<and> length (normals (createGearGeometry (1/2) 1 (3/10) 12 (1/5))) = 2304
   \<and> length (indices (createGearGeometry (1/2) 1 (3/10) 12 (1/5))) = 1152"
proof -
  have v: "valid_params (1/2) 1 (3/10) 12 (1/5)"
    by (simp add: valid_params_def)
  from C3_output_size [OF v] v show ?thesis by simp
qed

text \<open>
  \<^bold>\<open>C4\<close>: for every valid parameter set the revolution is cut into \<open>teeth * 4\<close> segments of
  angle \<open>2\<pi> / (teeth * 4)\<close>. The first four vertices of segment \<open>i\<close> (the components
  \<open>48 i, \<dots>, 48 i + 11\<close> of the position array) are the front face: they lie at
  \<open>z = width / 2\<close>, at the angles \<open>i * angleStep\<close> and \<open>(i + 1) * angleStep\<close>, the bore vertices
  at \<open>innerRadius\<close> and the rim vertices at the radius of their boundary, which is
  \<open>outerRadius + toothDepth\<close> when the boundary index is 1 or 2 modulo 4 and \<open>outerRadius\<close>
  when it is 0 or 3.
\<close>

theorem C4_front_face:
  assumes "valid_params innerRadius outerRadius width teeth toothDepth"
    and "i < teeth * 4"
  shows "take 12 (drop (48 * i)
            (vertices (createGearGeometry innerRadius outerRadius width (real teeth) toothDepth))) =
    (let angleStep = 2 * pi / (real teeth * 4);
         angle = real i * angleStep;
         nextAngle = real (i + 1) * angleStep;
         r1 = (if i mod 4 = 1 \<or> i mod 4 = 2 then outerRadius + toothDepth else outerRadius);
         r2 = (if (i + 1) mod 4 = 1 \<or> (i + 1) mod 4 = 2
               then outerRadius + toothDepth else outerRadius)
     in [innerRadius * cos angle, innerRadius * sin angle, width / 2,
         r1 * cos angle, r1 * sin angle, width / 2,
         r2 * cos nextAngle, r2 * sin nextAngle, width / 2,
         innerRadius * cos nextAngle, innerRadius * sin nextAngle, width / 2])
    \<and> length (vertices (createGearGeometry innerRadius outerRadius width (real teeth) toothDepth))
        = 48 * (teeth * 4)"
proof -
  have lt: "i < segments (real teeth)"
    using assms(2) by (simp add: mult.commute)
  show ?thesis
    unfolding segment_block [OF lt] radius_at_def [symmetric]
    by (simp add: segment_vertices_def Let_def length_vertices)
qed

text \<open>The default parameters, segment 1: both boundaries (1 and 2) are on the crest
  of a tooth, at radius \<open>1 + 0.2\<close>.\<close>

theorem C4_front_face_witness:
  "valid_params (1/2) 1 (3/10) 12 (1/5) \<and> (1::nat) < 12 * 4 \<and>
   take 12 (drop 48 (vertices (createGearGeometry (1/2) 1 (3/10) 12 (1/5)))) =
     [1/2 * cos (pi / 24), 1/2 * sin (pi / 24), 3/20,
      6/5 * cos (pi / 24), 6/5 * sin (pi / 24), 3/20,
      6/5 * cos (pi / 12), 6/5 * sin (pi / 12), 3/20,
      1/2 * cos (pi / 12), 1/2 * sin (pi / 12), 3/20]"
proof -
  have v: "valid_params (1/2) 1 (3/10) 12 (1/5)"
    by (simp add: valid_params_def)
  have i: "(1::nat) < 12 * 4" by simp
  from C4_front_face [OF v i] v show ?thesis
    by (simp add: Let_def)
qed

text \<open>
  \<^bold>\<open>C5\<close>: for every valid parameter set every value of the index array is below the
  vertex count (the number of position components divided by 3), and the length of the
  index array is a multiple of 3.
\<close>

theorem C5_mesh_invariant:
  assumes "valid_params innerRadius outerRadius width teeth toothDepth"
  shows "list_all
           (\<lambda>k. k < length (vertices
                     (createGearGeometry innerRadius outerRadius width (real teeth) toothDepth)) div 3)
           (indices (createGearGeometry innerRadius outerRadius width (real teeth) toothDepth))
       \<and> length (indices (createGearGeometry innerRadius outerRadius width (real teeth) toothDepth))
            mod 3 = 0"
proof -
  let ?g = "createGearGeometry innerRadius outerRadius width (real teeth) toothDepth"
  have count: "length (vertices ?g) div 3 = 16 * (4 * teeth)"
    by (simp add: length_vertices)
  have "k < 16 * (4 * teeth)" if "k \<in> set (indices ?g)" for k
  proof -
    from that obtain s where s: "s < 4 * teeth" and k: "k \<in> set (segment_indices (16 * s))"
      by (auto simp: createGearGeometry_indices)
    from k have "k < 16 * s + 16"
      by (auto simp: segment_indices_def)
    with s show ?thesis by simp
  qed
  then have "list_all (\<lambda>k. k < length (vertices ?g) div 3) (indices ?g)"
    unfolding count by (simp add: list_all_iff)
  moreover have "length (indices ?g) mod 3 = 0"
    by (simp add: length_indices)
  ultimately show ?thesis by simp
qed

text \<open>The default parameters: 1152 indices, each below 768.\<close>

theorem C5_mesh_invariant_witness:
  "valid_params (1/2) 1 (3/10) 12 (1/5)
   \<and> length (indices (createGearGeometry (1/2) 1 (3/10) 12 (1/5))) = 1152
   \<and> list_all (\<lambda>k. k < 768) (indices (createGearGeometry (1/2) 1 (3/10) 12 (1/5)))
   \<and> length (indices (createGearGeometry (1/2) 1 (3/10) 12 (1/5))) mod 3 = 0"
proof -
  have v: "valid_params (1/2) 1 (3/10) 12 (1/5)"
    by (simp add: valid_params_def)
  have s: "segments 12 = 48"
    using segments_of_nat [of 12] by simp
  from C5_mesh_invariant [OF v] v show ?thesis
    by (simp add: length_vertices length_indices s)
qed




section \<open>Properties of the exporter\<close>

subsection \<open>The binary buffer\<close>

lemma length_le_bytes32 [simp]: "length (le_bytes32 w) = 4"
  by (simp add: le_bytes32_def)

lemma length_le_bytes16 [simp]: "length (le_bytes16 w) = 2"
  by (simp add: le_bytes16_def)

lemma write_bytes_at_end:
  assumes "length pre = off" and "length bs \<le> length rest"
  shows "write_bytes (pre @ rest) off bs = Some (pre @ bs @ drop (length bs) rest)"
  using assms by (simp add: write_bytes_def)

lemma length_float_bytes [simp]: "length (float_bytes P xs) = 4 * length xs"
  by (induction xs) (simp_all add: float_bytes_def)

lemma length_index_bytes [simp]: "length (index_bytes ks) = 2 * length ks"
  by (induction ks) (simp_all add: index_bytes_def)

lemma put_floats_at_end:
  assumes "length pre = off" and "4 * length xs \<le> length rest"
  shows "put_floats P xs (pre @ rest, off) =
           Some (pre @ float_bytes P xs @ drop (4 * length xs) rest, off + 4 * length xs)"
  using assms
proof (induction xs arbitrary: pre off rest)
  case Nil
  then show ?case by (simp add: float_bytes_def)
next
  case (Cons x xs)
  let ?b = "le_bytes32 (float32_bits P x)"
  have w: "setFloat32 P (pre @ rest) off x = Some ((pre @ ?b) @ drop 4 rest)"
    using Cons.prems by (simp add: setFloat32_def write_bytes_at_end)
  have "put_floats P xs ((pre @ ?b) @ drop 4 rest, off + 4) =
      Some ((pre @ ?b) @ float_bytes P xs @ drop (4 * length xs) (drop 4 rest),
            off + 4 + 4 * length xs)"
    using Cons.prems by (intro Cons.IH) simp_all
  with w show ?case
    by (simp add: float_bytes_def add.commute)
qed

lemma put_indices_at_end:
  assumes "length pre = off" and "2 * length ks \<le> length rest"
  shows "put_indices ks (pre @ rest, off) =
           Some (pre @ index_bytes ks @ drop (2 * length ks) rest, off + 2 * length ks)"
  using assms
proof (induction ks arbitrary: pre off rest)
  case Nil
  then show ?case by (simp add: index_bytes_def)
next
  case (Cons k ks)
  have w: "setUint16 (pre @ rest) off k = Some ((pre @ le_bytes16 k) @ drop 2 rest)"
    using Cons.prems by (simp add: setUint16_def write_bytes_at_end)
  have "put_indices ks ((pre @ le_bytes16 k) @ drop 2 rest, off + 2) =
      Some ((pre @ le_bytes16 k) @ index_bytes ks @ drop (2 * length ks) (drop 2 rest),
            off + 2 + 2 * length ks)"
    using Cons.prems by (intro Cons.IH) simp_all
  with w show ?case
    by (simp add: index_bytes_def add.commute)
qed

lemma length_Float32Array [simp]: "length (Float32Array P xs) = length xs"
  by (simp add: Float32Array_def)

lemma length_Uint16Array [simp]: "length (Uint16Array ks) = length ks"
  by (simp add: Uint16Array_def)

lemma length_binary_payload:
  "length (binary_payload P g) =
     4 * length (vertices g) + 4 * length (normals g) + 2 * length (indices g)"
  by (simp add: binary_payload_def)

lemma exportGLB_binaryBuffer_eq:
  "exportGLB_binaryBuffer P g = Some (binary_payload P g)"
proof -
  let ?p = "Float32Array P (vertices g)" and ?n = "Float32Array P (normals g)"
    and ?k = "Uint16Array (indices g)"
  let ?len = "4 * length ?p + 4 * length ?n + 2 * length ?k"
  have 1: "put_floats P ?p (new_ArrayBuffer ?len, 0) =
      Some (float_bytes P ?p @ replicate (4 * length ?n + 2 * length ?k) 0, 4 * length ?p)"
    using put_floats_at_end [of "[]" 0 ?p "new_ArrayBuffer ?len" P]
    by (simp add: new_ArrayBuffer_def)
  have 2: "put_floats P ?n (float_bytes P ?p @ replicate (4 * length ?n + 2 * length ?k) 0,
        4 * length ?p) =
      Some (float_bytes P ?p @ float_bytes P ?n @ replicate (2 * length ?k) 0,
        4 * length ?p + 4 * length ?n)"
    using put_floats_at_end [of "float_bytes P ?p" "4 * length ?p" ?n
        "replicate (4 * length ?n + 2 * length ?k) 0" P]
    by simp
  have 3: "put_indices ?k (float_bytes P ?p @ float_bytes P ?n @ replicate (2 * length ?k) 0,
        4 * length ?p + 4 * length ?n) =
      Some (float_bytes P ?p @ float_bytes P ?n @ index_bytes ?k,
        4 * length ?p + 4 * length ?n + 2 * length ?k)"
    using put_indices_at_end [of "float_bytes P ?p @ float_bytes P ?n"
        "4 * length ?p + 4 * length ?n" ?k "replicate (2 * length ?k) 0"]
    by simp
  show ?thesis
    unfolding exportGLB_binaryBuffer_def Let_def
    by (simp only: 1 2 3 bind.simps prod.case binary_payload_def)
qed

subsection \<open>The container\<close>

lemma ceiling_quarter: "\<lceil>real n / 4\<rceil> = - (- int n div 4)"
  using ceiling_divide_eq_div [of "int n" 4] by simp

lemma jsonChunkLength_of_ge: "n \<le> jsonChunkLength_of n"
proof -
  define q where "q = - int n div 4"
  have "- int n = 4 * q + (- int n) mod 4" "0 \<le> (- int n) mod 4"
    by (simp_all add: q_def)
  then have "int n \<le> (- q) * 4" "0 \<le> - q" by linarith+
  then show ?thesis
    unfolding jsonChunkLength_of_def ceiling_quarter q_def [symmetric] by linarith
qed

lemma jsonChunkLength_of_mod: "jsonChunkLength_of n mod 4 = 0"
  by (simp add: jsonChunkLength_of_def)

lemma pad_loop_at_end:
  assumes "length pre = offset + i" and "i \<le> L" and "L - i \<le> k"
  shows "pad_loop offset L i (pre @ replicate k 0) =
           pre @ replicate (L - i) 0x20 @ replicate (k - (L - i)) 0"
  using assms
proof (induction "L - i" arbitrary: i pre k)
  case 0
  then have "\<not> i < L" by simp
  with 0 show ?case
    by (subst pad_loop.simps) simp
next
  case (Suc d)
  then have lt: "i < L" by simp
  from Suc obtain k' where k: "k = Suc k'"
    by (cases k) simp_all
  have upd: "(pre @ replicate k 0)[offset + i := 0x20] = (pre @ [0x20]) @ replicate k' 0"
    using Suc.prems(1) by (simp add: k list_update_append)
  have "pad_loop offset L (i + 1) ((pre @ [0x20]) @ replicate k' 0) =
      (pre @ [0x20]) @ replicate (L - (i + 1)) 0x20 @ replicate (k' - (L - (i + 1))) 0"
    using Suc by (intro Suc.hyps(1)) (simp_all add: k)
  moreover have "replicate (L - i) (0x20 :: byte) = 0x20 # replicate (L - (i + 1)) 0x20"
    using lt by (metis Suc.hyps(2) Suc_diff_Suc Suc_eq_plus1 replicate_Suc)
  moreover have "k' - (L - (i + 1)) = k - (L - i)"
    using lt by (simp add: k)
  ultimately show ?case
    using lt by (subst pad_loop.simps) (simp add: upd)
qed

lemma length_TextEncoder_encode [simp]: "length (TextEncoder_encode s) = length s"
  by (simp add: TextEncoder_encode_def)

lemma write_zeros:
  assumes "length pre = off" and "length bs \<le> k"
  shows "write_bytes (pre @ replicate k 0) off bs = Some ((pre @ bs) @ replicate (k - length bs) 0)"
  using assms by (simp add: write_bytes_def)

lemma setUint32_zeros:
  assumes "length pre = off" and "4 \<le> k"
  shows "setUint32 (pre @ replicate k 0) off v =
           Some ((pre @ le_bytes32 (of_nat v)) @ replicate (k - 4) 0)"
  using write_zeros [of pre off "le_bytes32 (of_nat v)" k] assms
  by (simp add: setUint32_def)

lemma exportGLB_container_eq:
  "exportGLB_container jsonString bin = Some (glb_layout jsonString bin)"
proof -
  define n where "n = length jsonString"
  define L where "L = jsonChunkLength_of n"
  define B where "B = length bin"
  define T where "T = 12 + 8 + L + 8 + B"
  have nL: "n \<le> L"
    unfolding L_def by (rule jsonChunkLength_of_ge)
  define m where "m = le_bytes32 0x46546C67"
  define v where "v = le_bytes32 2"
  define t where "t = le_bytes32 (of_nat T)"
  define l where "l = le_bytes32 (of_nat L)"
  define j where "j = le_bytes32 0x4E4F534A"
  define jb where "jb = TextEncoder_encode jsonString"
  define bl where "bl = le_bytes32 (of_nat B)"
  define bt where "bt = le_bytes32 0x004E4942"
  have len [simp]: "length m = 4" "length v = 4" "length t = 4" "length l = 4" "length j = 4"
    "length jb = n" "length bl = 4" "length bt = 4"
    by (simp_all add: m_def v_def t_def l_def j_def jb_def bl_def bt_def n_def)
  have s1: "setUint32 (new_ArrayBuffer T) 0 0x46546C67 = Some (m @ replicate (T - 4) 0)"
    using setUint32_zeros [of "[]" 0 T "0x46546C67"]
    by (simp add: new_ArrayBuffer_def m_def T_def)
  have s2: "setUint32 (m @ replicate (T - 4) 0) 4 2 = Some ((m @ v) @ replicate (T - 8) 0)"
    using setUint32_zeros [of m 4 "T - 4" 2]
    by (simp add: v_def T_def)
  have s3: "setUint32 ((m @ v) @ replicate (T - 8) 0) 8 T =
      Some ((m @ v @ t) @ replicate (T - 12) 0)"
    using setUint32_zeros [of "m @ v" 8 "T - 8" T]
    by (simp add: t_def T_def)
  have s4: "setUint32 ((m @ v @ t) @ replicate (T - 12) 0) 12 L =
      Some ((m @ v @ t @ l) @ replicate (T - 16) 0)"
    using setUint32_zeros [of "m @ v @ t" 12 "T - 12" L]
    by (simp add: l_def T_def)
  have s5: "setUint32 ((m @ v @ t @ l) @ replicate (T - 16) 0) 16 0x4E4F534A =
      Some ((m @ v @ t @ l @ j) @ replicate (T - 20) 0)"
    using setUint32_zeros [of "m @ v @ t @ l" 16 "T - 16" "0x4E4F534A"]
    by (simp add: j_def T_def)
  have s6: "TypedArray_set ((m @ v @ t @ l @ j) @ replicate (T - 20) 0) jb 20 =
      Some ((m @ v @ t @ l @ j @ jb) @ replicate (T - 20 - n) 0)"
    using write_zeros [of "m @ v @ t @ l @ j" 20 jb "T - 20"] nL
    by (simp add: TypedArray_set_def T_def)
  have s7: "pad_loop 20 L n ((m @ v @ t @ l @ j @ jb) @ replicate (T - 20 - n) 0) =
      (m @ v @ t @ l @ j @ jb @ replicate (L - n) 0x20) @ replicate (T - 20 - L) 0"
    using pad_loop_at_end [of "m @ v @ t @ l @ j @ jb" 20 n L "T - 20 - n"] nL
    by (simp add: T_def)
  have s8: "setUint32 ((m @ v @ t @ l @ j @ jb @ replicate (L - n) 0x20) @
        replicate (T - 20 - L) 0) (20 + L) B =
      Some ((m @ v @ t @ l @ j @ jb @ replicate (L - n) 0x20 @ bl) @ replicate (T - 24 - L) 0)"
    using setUint32_zeros [of "m @ v @ t @ l @ j @ jb @ replicate (L - n) 0x20" "20 + L"
        "T - 20 - L" B] nL
    by (simp add: bl_def T_def)
  have s9: "setUint32 ((m @ v @ t @ l @ j @ jb @ replicate (L - n) 0x20 @ bl) @
        replicate (T - 24 - L) 0) (24 + L) 0x004E4942 =
      Some ((m @ v @ t @ l @ j @ jb @ replicate (L - n) 0x20 @ bl @ bt) @ replicate B 0)"
    using setUint32_zeros [of "m @ v @ t @ l @ j @ jb @ replicate (L - n) 0x20 @ bl" "24 + L"
        "T - 24 - L" "0x004E4942"] nL
    by (simp add: bt_def T_def)
  have s10: "TypedArray_set ((m @ v @ t @ l @ j @ jb @ replicate (L - n) 0x20 @ bl @ bt) @
        replicate B 0) bin (28 + L) =
      Some (m @ v @ t @ l @ j @ jb @ replicate (L - n) 0x20 @ bl @ bt @ bin)"
    using write_zeros [of "m @ v @ t @ l @ j @ jb @ replicate (L - n) 0x20 @ bl @ bt" "28 + L"
        bin B] nL
    by (simp add: TypedArray_set_def B_def)
  have offs: "(12::nat) + 4 = 16" "(16::nat) + 4 = 20" "20 + L + 4 = 24 + L" "24 + L + 4 = 28 + L"
    by simp_all
  have "exportGLB_container jsonString bin =
      Some (m @ v @ t @ l @ j @ jb @ replicate (L - n) 0x20 @ bl @ bt @ bin)"
    unfolding exportGLB_container_def Let_def jb_def [symmetric] len(6)
      jsonChunkLength_of_def [symmetric] L_def [symmetric]
      B_def [symmetric] T_def [symmetric]
    by (simp only: s1 s2 s3 s4 s5 s6 s7 s8 s9 s10 bind.simps offs)
  then show ?thesis
    by (simp add: glb_layout_def Let_def m_def v_def t_def l_def j_def jb_def bl_def bt_def
        n_def L_def B_def T_def)
qed

subsection \<open>Reading fields back\<close>

lemma split_u16: "(u::nat) < 65536 \<Longrightarrow> u mod 256 + 256 * (u div 256 mod 256) = u"
proof -
  assume "u < 65536"
  then have "u div 256 < 256" by simp
  then show ?thesis by simp
qed

lemma split_u32:
  assumes "(u::nat) < 4294967296"
  shows "u mod 256 + 256 * (u div 256 mod 256 +
      256 * (u div 65536 mod 256 + 256 * (u div 16777216 mod 256))) = u"
proof -
  have d: "u div 65536 = u div 256 div 256" "u div 16777216 = u div 256 div 256 div 256"
    by (simp_all add: div_mult2_eq [symmetric])
  have "u div 256 div 256 div 256 < 256"
    using assms by (simp add: div_mult2_eq [symmetric])
  then show ?thesis
    unfolding d by simp
qed

lemma le_value_le_bytes32: "le_value (le_bytes32 w) = unat w"
proof -
  have "unat w < 4294967296"
    using unsigned_less [of w, where 'a = nat] by simp
  have "le_value (le_bytes32 w) = unat w mod 256 + 256 * (unat w div 256 mod 256 +
      256 * (unat w div 65536 mod 256 + 256 * (unat w div 16777216 mod 256)))"
    unfolding le_value_def le_bytes32_def foldr.simps o_apply unsigned_ucast_eq unat_drop_bit_eq
    by (simp add: take_bit_eq_mod drop_bit_eq_div)
  with \<open>unat w < 4294967296\<close> show ?thesis
    by (simp only: split_u32)
qed

lemma le_value_le_bytes16: "le_value (le_bytes16 w) = unat w"
proof -
  have "unat w < 65536"
    using unsigned_less [of w, where 'a = nat] by simp
  have "le_value (le_bytes16 w) = unat w mod 256 + 256 * (unat w div 256 mod 256)"
    unfolding le_value_def le_bytes16_def foldr.simps o_apply unsigned_ucast_eq unat_drop_bit_eq
    by (simp add: take_bit_eq_mod drop_bit_eq_div)
  with \<open>unat w < 65536\<close> show ?thesis
    by (simp only: split_u16)
qed

subsection \<open>The JSON object of the empty mesh\<close>

lemma decimal_digit: "n < 10 \<Longrightarrow> decimal n = [digit_char n]"
  by (subst decimal.simps) simp

lemma Number_toString_nat:
  "n < 2 ^ 53 \<Longrightarrow> Number_toString P (real n) = decimal n"
proof -
  assume "n < 2 ^ 53"
  then have "real n < 2 ^ 53"
    by (metis of_nat_less_iff of_nat_numeral of_nat_power)
  then show ?thesis
    by (simp add: Number_toString_def)
qed

lemma bbox_loop_empty: "bbox_loop positions 0 0 mm = mm"
  by (subst bbox_loop.simps) simp

lemma empty_json:
  "exportGLB_json P empty_mesh =
     JObject
       [(''asset'', JObject [(''version'', JString ''2.0'')]),
        (''scenes'', JArray [JObject [(''nodes'', JArray [JNat 0])]]),
        (''nodes'', JArray [JObject [(''mesh'', JNat 0)]]),
        (''meshes'', JArray [JObject [(''primitives'', JArray [JObject
            [(''attributes'', JObject [(''POSITION'', JNat 1), (''NORMAL'', JNat 2)]),
             (''indices'', JNat 0)]])]]),
        (''buffers'', JArray [JObject [(''byteLength'', JNat 0)]]),
        (''bufferViews'', JArray
           [JObject [(''buffer'', JNat 0), (''byteOffset'', JNat 0),
                     (''byteLength'', JNat 0), (''target'', JNat 34963)],
            JObject [(''buffer'', JNat 0), (''byteOffset'', JNat 0),
                     (''byteLength'', JNat 0), (''target'', JNat 34962)],
            JObject [(''buffer'', JNat 0), (''byteOffset'', JNat 0),
                     (''byteLength'', JNat 0), (''target'', JNat 34962)]]),
        (''accessors'', JArray
           [JObject [(''bufferView'', JNat 0), (''componentType'', JNat 5123),
                     (''count'', JNat 0), (''type'', JString ''SCALAR'')],
            JObject [(''bufferView'', JNat 1), (''componentType'', JNat 5126),
                     (''count'', JNat 0), (''type'', JString ''VEC3''),
                     (''min'', JArray [JNumber PosInfinity, JNumber PosInfinity, JNumber PosInfinity]),
                     (''max'', JArray [JNumber NegInfinity, JNumber NegInfinity, JNumber NegInfinity])],
            JObject [(''bufferView'', JNat 2), (''componentType'', JNat 5126),
                     (''count'', JNat 0), (''type'', JString ''VEC3'')]])]"
  by (simp add: exportGLB_json_def empty_mesh_def Let_def bbox_loop_empty
      Float32Array_def Uint16Array_def)

subsection \<open>The blob in closed form\<close>

lemma exportGLB_eq:
  "exportGLB P g =
     Some (glb_layout (JSON_stringify P (exportGLB_json P g)) (binary_payload P g))"
  by (simp add: exportGLB_def exportGLB_binaryBuffer_eq exportGLB_container_eq)

lemma length_glb_layout:
  "length (glb_layout jsonString bin) = 28 + jsonChunkLength_of (length jsonString) + length bin"
  using jsonChunkLength_of_ge [of "length jsonString"]
  by (simp add: glb_layout_def Let_def)

lemma u32_at_here: "u32_at (pre @ le_bytes32 w @ rest) (length pre) = unat w"
  by (simp add: u32_at_def le_value_le_bytes32)

lemma u32_at_0: "u32_at (le_bytes32 w @ rest) 0 = unat w"
  using u32_at_here [of "[]" w rest] by simp

lemma glb_layout_magic: "u32_at (glb_layout jsonString bin) 0 = 0x46546C67"
  unfolding glb_layout_def Let_def by (simp add: u32_at_0)

lemma glb_layout_version: "u32_at (glb_layout jsonString bin) 4 = 2"
  unfolding glb_layout_def Let_def
  using u32_at_here [of "le_bytes32 0x46546C67" 2] by simp

lemma unat_of_nat32: "unat (of_nat n :: 32 word) = n mod 2 ^ 32"
  by (simp add: unat_of_nat)

lemma unat_of_nat16: "unat (of_nat n :: 16 word) = n mod 65536"
  by (simp add: unat_of_nat)

lemma glb_layout_total:
  "u32_at (glb_layout jsonString bin) 8 = length (glb_layout jsonString bin) mod 2 ^ 32"
proof -
  let ?T = "12 + 8 + jsonChunkLength_of (length jsonString) + 8 + length bin"
  have "u32_at (glb_layout jsonString bin) 8 = unat (of_nat ?T :: 32 word)"
    unfolding glb_layout_def Let_def
    using u32_at_here [of "le_bytes32 0x46546C67 @ le_bytes32 2" "of_nat ?T"] by simp
  also have "\<dots> = ?T mod 2 ^ 32"
    by (rule unat_of_nat32)
  also have "?T = length (glb_layout jsonString bin)"
    by (simp add: length_glb_layout)
  finally show ?thesis .
qed

lemma take_drop_blocks:
  assumes "\<And>x. length (f x) = c" and "k < length xs"
  shows "take c (drop (c * k) (concat (map f xs))) = f (xs ! k)"
  using assms(2)
proof (induction xs arbitrary: k)
  case Nil
  then show ?case by simp
next
  case (Cons x xs)
  show ?case
  proof (cases k)
    case 0
    then show ?thesis by (simp add: assms(1))
  next
    case (Suc k')
    with Cons.prems have "k' < length xs" by simp
    then have "take c (drop (c * k') (concat (map f xs))) = f (xs ! k')"
      by (rule Cons.IH)
    then show ?thesis
      by (simp add: Suc assms(1))
  qed
qed

lemma u16_at_index:
  assumes "k < length ks"
  shows "u16_at (pre @ index_bytes ks) (length pre + 2 * k) = unat (ks ! k)"
proof -
  have "take 2 (drop (2 * k) (index_bytes ks)) = le_bytes16 (ks ! k)"
    unfolding index_bytes_def using assms by (intro take_drop_blocks) simp_all
  then show ?thesis
    by (simp add: u16_at_def le_value_le_bytes16)
qed

lemma stored_indices:
  assumes "length pre + 2 * length ks = tot"
  shows "map (\<lambda>k. u16_at (pre @ index_bytes (Uint16Array ks)) (tot - 2 * length ks + 2 * k))
           [0..<length ks] = map (\<lambda>v. v mod 65536) ks"
proof (rule nth_equalityI)
  show "length (map (\<lambda>k. u16_at (pre @ index_bytes (Uint16Array ks)) (tot - 2 * length ks + 2 * k))
            [0..<length ks]) = length (map (\<lambda>v. v mod 65536) ks)"
    by simp
next
  fix i
  assume "i < length (map (\<lambda>k. u16_at (pre @ index_bytes (Uint16Array ks))
      (tot - 2 * length ks + 2 * k)) [0..<length ks])"
  then have i: "i < length ks" by simp
  have off: "tot - 2 * length ks = length pre"
    using assms by simp
  have "u16_at (pre @ index_bytes (Uint16Array ks)) (length pre + 2 * i) =
      unat (Uint16Array ks ! i)"
    using i by (intro u16_at_index) simp
  also have "\<dots> = ks ! i mod 65536"
    using i by (simp add: Uint16Array_def unat_of_nat16)
  finally show "map (\<lambda>k. u16_at (pre @ index_bytes (Uint16Array ks))
      (tot - 2 * length ks + 2 * k)) [0..<length ks] ! i = map (\<lambda>v. v mod 65536) ks ! i"
    using i by (simp add: off)
qed

lemma glb_layout_split:
  "glb_layout jsonString bin =
     glb_head jsonString (length bin) @
     le_bytes32 (of_nat (length bin)) @ le_bytes32 0x004E4942 @ bin"
  by (simp add: glb_layout_def glb_head_def Let_def)

lemma length_glb_head:
  "length (glb_head jsonString b) = 20 + jsonChunkLength_of (length jsonString)"
  using jsonChunkLength_of_ge [of "length jsonString"]
  by (simp add: glb_head_def Let_def)

lemma glb_layout_json_text:
  "take (length jsonString) (drop 20 (glb_layout jsonString bin)) = TextEncoder_encode jsonString"
  by (simp add: glb_layout_def Let_def)

lemma u32_at_after:
  assumes "blob = pre @ le_bytes32 w @ rest" and "off = length pre"
  shows "u32_at blob off = unat w"
  using assms by (simp add: u32_at_here)

lemma glb_layout_bin_header:
  "u32_at (glb_layout jsonString bin) (length (glb_layout jsonString bin) - length bin - 8)
     = length bin mod 2 ^ 32"
  "u32_at (glb_layout jsonString bin) (length (glb_layout jsonString bin) - length bin - 4)
     = 0x004E4942"
  "drop (length (glb_layout jsonString bin) - length bin) (glb_layout jsonString bin) = bin"
proof -
  let ?h = "glb_head jsonString (length bin)"
  have len: "length (glb_layout jsonString bin) = length ?h + 8 + length bin"
    by (simp add: glb_layout_split)
  have "u32_at (glb_layout jsonString bin) (length (glb_layout jsonString bin) - length bin - 8)
     = unat (of_nat (length bin) :: 32 word)"
    by (rule u32_at_after [where pre = ?h and rest = "le_bytes32 0x004E4942 @ bin"])
       (simp_all add: glb_layout_split)
  then show "u32_at (glb_layout jsonString bin)
      (length (glb_layout jsonString bin) - length bin - 8) = length bin mod 2 ^ 32"
    by (simp only: unat_of_nat32)
  have "u32_at (glb_layout jsonString bin) (length (glb_layout jsonString bin) - length bin - 4)
     = unat (0x004E4942 :: 32 word)"
    by (rule u32_at_after [where pre = "?h @ le_bytes32 (of_nat (length bin))" and rest = bin])
       (simp_all add: glb_layout_split)
  then show "u32_at (glb_layout jsonString bin)
      (length (glb_layout jsonString bin) - length bin - 4) = 0x004E4942"
    by simp
  show "drop (length (glb_layout jsonString bin) - length bin) (glb_layout jsonString bin) = bin"
    unfolding len by (simp add: glb_layout_split)
qed

lemma decimal_34963: "decimal 34963 = ''34963''"
  by (simp add: decimal.simps digit_char_def)

lemma decimal_34962: "decimal 34962 = ''34962''"
  by (simp add: decimal.simps digit_char_def)

lemma decimal_5123: "decimal 5123 = ''5123''"
  by (simp add: decimal.simps digit_char_def)

lemma decimal_5126: "decimal 5126 = ''5126''"
  by (simp add: decimal.simps digit_char_def)

lemma decimal_small: "decimal 0 = ''0''" "decimal (Suc 0) = ''1''" "decimal 2 = ''2''"
  by (simp_all add: decimal_digit digit_char_def)

lemma Number_toString_0: "Number_toString P 0 = ''0''"
  using Number_toString_nat [of 0 P] by (simp add: decimal_small)

lemma Number_toString_numeral:
  "numeral k < (2::nat) ^ 53 \<Longrightarrow> Number_toString P (numeral k) = decimal (numeral k)"
  using Number_toString_nat [of "numeral k" P] by simp

lemma Number_toString_1: "Number_toString P 1 = ''1''"
  using Number_toString_nat [of 1 P] by (simp add: decimal_small)

lemma empty_text: "JSON_stringify P (exportGLB_json P empty_mesh) = empty_gltf_text"
  unfolding empty_json empty_gltf_text_def
  by (simp add: Number_toString_0 Number_toString_1 Number_toString_numeral quote_def
      decimal_small decimal_34963 decimal_34962 decimal_5123 decimal_5126)

lemma exportGLB_index_suffix:
  assumes "exportGLB P g = Some blob"
  shows "\<exists>pre. blob = pre @ index_bytes (Uint16Array (indices g)) \<and>
           length pre + 2 * length (indices g) = length blob"
proof -
  let ?J = "JSON_stringify P (exportGLB_json P g)"
  let ?pre = "glb_head ?J (length (binary_payload P g)) @
      le_bytes32 (of_nat (length (binary_payload P g))) @ le_bytes32 0x004E4942 @
      float_bytes P (Float32Array P (vertices g)) @ float_bytes P (Float32Array P (normals g))"
  from assms have "blob = glb_layout ?J (binary_payload P g)"
    by (simp add: exportGLB_eq)
  then have "blob = ?pre @ index_bytes (Uint16Array (indices g))"
    by (simp add: glb_layout_split binary_payload_def)
  then show ?thesis
    by (intro exI [of _ ?pre]) simp
qed

lemma jsonChunkLength_of_621: "jsonChunkLength_of 621 = 624"
  unfolding jsonChunkLength_of_def ceiling_quarter by simp

lemma length_empty_gltf_text: "length empty_gltf_text = 621"
  unfolding empty_gltf_text_def by simp

text \<open>The reader with a numeral for the bound of its recursion.\<close>

lemmas read_numeral_fuel =
  read_value.simps(2) [of "pred_numeral k", unfolded numeral_eq_Suc [symmetric]]
  read_elements.simps(2) [of "pred_numeral k", unfolded numeral_eq_Suc [symmetric]]
  read_members.simps(2) [of "pred_numeral k", unfolded numeral_eq_Suc [symmetric]]
  for k

lemma parse_empty_text: "JSON_parse empty_gltf_text = Some empty_gltf_value"
  unfolding JSON_parse_def length_empty_gltf_text
  unfolding empty_gltf_text_def empty_gltf_value_def
  by (simp add: read_number_def is_digit_def digit_value_def read_numeral_fuel)

lemma pad3: "TextEncoder_encode ''   '' = replicate 3 0x20"
  by (simp add: TextEncoder_encode_def numeral_3_eq_3)

lemma empty_payload: "binary_payload P empty_mesh = []"
  by (simp add: binary_payload_def empty_mesh_def float_bytes_def index_bytes_def
      Float32Array_def Uint16Array_def)

lemma empty_blob:
  "exportGLB P empty_mesh =
     Some (le_bytes32 0x46546C67 @ le_bytes32 2 @ le_bytes32 652 @
           le_bytes32 624 @ le_bytes32 0x4E4F534A @
           TextEncoder_encode empty_gltf_text @ TextEncoder_encode ''   '' @
           le_bytes32 0 @ le_bytes32 0x004E4942)"
  unfolding exportGLB_eq empty_payload empty_text pad3 glb_layout_def Let_def
    length_empty_gltf_text jsonChunkLength_of_621
  by simp

lemma length_empty_blob:
  assumes "exportGLB P empty_mesh = Some blob"
  shows "length blob = 652"
proof -
  from assms have "blob = glb_layout empty_gltf_text []"
    by (simp add: exportGLB_eq empty_payload empty_text)
  then show ?thesis
    by (simp add: length_glb_layout length_empty_gltf_text jsonChunkLength_of_621)
qed

lemma index_bytes_wrapped: "index_bytes (Uint16Array [65536, 0, 1]) = [0, 0, 0, 0, 1, 0]"
  by (simp add: index_bytes_def Uint16Array_def le_bytes16_def)

subsection \<open>The claims about the exporter\<close>

text \<open>
  \<^bold>\<open>C2\<close>, as stated: a mesh of more than 65536 vertices makes \<^verbatim>\<open>exportGLB\<close> fail with a
  CapacityError instead of wrapping index values. The exporter has no such check. For the
  mesh of 65537 vertices (196611 position components, all 0) with the index array
  \<open>[65536, 0, 1]\<close> it returns a blob, and the last six bytes of the blob, which are the
  index segment, hold the indices \<open>0, 0, 1\<close>: the index 65536 is stored as 0.
\<close>

theorem C2_no_capacity_error:
  "(case exportGLB zero_platform
           \<lparr>vertices = replicate 196611 0, normals = replicate 196611 0,
            indices = [65536, 0, 1]\<rparr> of
      None \<Rightarrow> False
    | Some blob \<Rightarrow> drop (length blob - 6) blob = [0, 0, 0, 0, 1, 0])
   \<and> length (vertices \<lparr>vertices = replicate 196611 0, normals = replicate 196611 0,
            indices = [65536, 0, 1]\<rparr>) div 3 = 65537"
proof -
  define g where "g = \<lparr>vertices = replicate 196611 (0::real),
    normals = replicate 196611 (0::real), indices = [65536, 0, 1::nat]\<rparr>"
  obtain blob where blob: "exportGLB zero_platform g = Some blob"
    by (simp add: exportGLB_eq)
  have ind: "indices g = [65536, 0, 1]"
    by (simp add: g_def)
  from exportGLB_index_suffix [OF blob] obtain pre
    where "blob = pre @ [0, 0, 0, 0, 1, 0]" and "length pre + 6 = length blob"
    unfolding ind index_bytes_wrapped by auto
  then have "drop (length blob - 6) blob = [0, 0, 0, 0, 1, 0]"
    by auto
  moreover have "length (vertices g) div 3 = 65537"
    by (simp add: g_def)
  ultimately show ?thesis
    using blob unfolding g_def by (simp only: option.case)
qed

text \<open>
  \<^bold>\<open>C2\<close>, amended: \<^verbatim>\<open>exportGLB\<close> checks no capacity and raises no error. For every input
  mesh, whatever its vertex count, it returns a complete blob: the 12-byte header, the
  8-byte header and the padded text of the JSON chunk, the 8-byte header of the binary
  chunk, and 4 bytes for each position component, 4 for each normal component and 2 for
  each index.
\<close>

theorem C2_every_mesh_is_exported:
  "\<exists>blob. exportGLB P g = Some blob
     \<and> length blob =
         12 + 8 + jsonChunkLength_of (length (JSON_stringify P (exportGLB_json P g))) + 8 +
         (4 * length (vertices g) + 4 * length (normals g) + 2 * length (indices g))"
  by (simp add: exportGLB_eq length_glb_layout length_binary_payload)

text \<open>
  \<^bold>\<open>C6\<close>, as stated: for every input mesh the total length declared in the header is the
  length of the blob. The field has 32 bits and \<^verbatim>\<open>setUint32\<close> reduces its argument modulo
  \<open>2\<^sup>3\<^sup>2\<close>. For the mesh of 178956971 vertices (536870913 position components and as many
  normal components, all 0) and one triangle, the blob has at least \<open>2\<^sup>3\<^sup>2\<close> bytes and the
  declared length is not the length of the blob.
\<close>

theorem C6_total_length_wraps:
  "(case exportGLB zero_platform
           \<lparr>vertices = replicate 536870913 0, normals = replicate 536870913 0,
            indices = [0, 1, 2]\<rparr> of
      None \<Rightarrow> False
    | Some blob \<Rightarrow> 4294967296 \<le> length blob \<and> u32_at blob 8 \<noteq> length blob)"
proof -
  define g where "g = \<lparr>vertices = replicate 536870913 (0::real),
    normals = replicate 536870913 (0::real), indices = [0, 1, 2::nat]\<rparr>"
  define blob where
    "blob = glb_layout (JSON_stringify zero_platform (exportGLB_json zero_platform g))
       (binary_payload zero_platform g)"
  have "length (vertices g) = 536870913" "length (normals g) = 536870913"
    "length (indices g) = 3"
    by (simp_all add: g_def)
  then have "length (binary_payload zero_platform g) = 4294967310"
    by (simp only: length_binary_payload)
  then have big: "4294967296 \<le> length blob"
    unfolding blob_def by (simp only: length_glb_layout)
  have "u32_at blob 8 = length blob mod 2 ^ 32"
    unfolding blob_def by (rule glb_layout_total)
  then have "u32_at blob 8 < 4294967296"
    by simp
  with big have ne: "u32_at blob 8 \<noteq> length blob"
    by linarith
  have "exportGLB zero_platform g = Some blob"
    unfolding blob_def by (rule exportGLB_eq)
  with big ne show ?thesis
    unfolding g_def by (simp only: option.case) simp
qed

text \<open>
  \<^bold>\<open>C6\<close>, amended: for every input mesh the blob begins with a 12-byte little-endian
  header whose magic field is \<open>0x46546C67\<close>, whose version field is 2, and whose declared
  total length is the length of the blob modulo \<open>2\<^sup>3\<^sup>2\<close>; it is the length of the blob
  whenever the blob is shorter than \<open>2\<^sup>3\<^sup>2\<close> bytes.
\<close>

theorem C6_header:
  "\<exists>blob. exportGLB P g = Some blob
     \<and> u32_at blob 0 = 0x46546C67
     \<and> u32_at blob 4 = 2
     \<and> u32_at blob 8 = length blob mod 2 ^ 32
     \<and> (length blob < 2 ^ 32 \<longrightarrow> u32_at blob 8 = length blob)"
  by (simp add: exportGLB_eq glb_layout_magic glb_layout_version glb_layout_total)

text \<open>The empty mesh: a blob of 652 bytes, which declares 652.\<close>

theorem C6_header_witness:
  "\<exists>blob. exportGLB zero_platform \<lparr>vertices = [], normals = [], indices = []\<rparr> = Some blob
     \<and> length blob = 652 \<and> length blob < 2 ^ 32 \<and> u32_at blob 8 = length blob"
proof -
  from C6_header [of zero_platform "\<lparr>vertices = [], normals = [], indices = []\<rparr>"]
  obtain blob where blob:
    "exportGLB zero_platform \<lparr>vertices = [], normals = [], indices = []\<rparr> = Some blob"
    and imp: "length blob < 2 ^ 32 \<longrightarrow> u32_at blob 8 = length blob"
    by blast
  from blob have "length blob = 652"
    unfolding empty_mesh_def [symmetric] by (rule length_empty_blob)
  with blob imp show ?thesis by simp
qed

text \<open>
  \<^bold>\<open>C7\<close>: the claim asks for a binary chunk padded with zeros to a multiple of 4 bytes,
  its length field giving the padded length. The exporter aligns the JSON chunk only
  (\<^verbatim>\<open>jsonChunkLength = Math.ceil(jsonByteLength / 4) * 4\<close>, with the comment
  \<^verbatim>\<open>Must be 4-byte aligned\<close>); for the binary chunk it takes
  \<^verbatim>\<open>binaryChunkLength = binaryBufferLength\<close>.
  For one triangle (9 position components, 9 normal components, 3 indices: 78 bytes) the
  length field of the binary chunk, which stands 8 bytes before the 78 bytes of payload
  that end the blob, declares 78, the chunk type follows it, and the length of the
  whole blob is 2 modulo 4.
\<close>

theorem C7_binary_chunk_not_padded:
  "\<exists>blob. exportGLB P \<lparr>vertices = [0, 0, 0, 1, 0, 0, 0, 1, 0],
                          normals = [0, 0, 1, 0, 0, 1, 0, 0, 1],
                          indices = [0, 1, 2]\<rparr> = Some blob
     \<and> u32_at blob (length blob - 78 - 8) = 78
     \<and> u32_at blob (length blob - 78 - 4) = 0x004E4942
     \<and> length blob mod 4 = 2"
proof -
  define g where "g = \<lparr>vertices = [0, 0, 0, 1, 0, 0, 0, 1, 0::real],
    normals = [0, 0, 1, 0, 0, 1, 0, 0, 1::real], indices = [0, 1, 2::nat]\<rparr>"
  define J where "J = JSON_stringify P (exportGLB_json P g)"
  define B where "B = binary_payload P g"
  have B: "length B = 78"
    unfolding B_def length_binary_payload by (simp add: g_def)
  have "length (glb_layout J B) mod 4 = (28 + 78 + jsonChunkLength_of (length J)) mod 4"
    by (simp add: length_glb_layout B add.commute add.left_commute)
  also have "\<dots> = 2"
    using jsonChunkLength_of_mod [of "length J"] by presburger
  finally have m: "length (glb_layout J B) mod 4 = 2" .
  have "exportGLB P g = Some (glb_layout J B)"
    unfolding J_def B_def by (rule exportGLB_eq)
  moreover have "u32_at (glb_layout J B) (length (glb_layout J B) - 78 - 8) = 78"
    using glb_layout_bin_header(1) [of J B] by (simp add: B)
  moreover have "u32_at (glb_layout J B) (length (glb_layout J B) - 78 - 4) = 0x004E4942"
    using glb_layout_bin_header(2) [of J B] by (simp add: B)
  ultimately show ?thesis
    using m unfolding g_def by blast
qed

text \<open>
  \<^bold>\<open>C8\<close>: for the mesh with no vertex and no index \<^verbatim>\<open>exportGLB\<close> does not fail. It returns
  the blob of 652 bytes written out below: the header (magic, version 2, total length
  652), the JSON chunk (length 624, type \<open>JSON\<close>, the 621 characters of
  \<^const>\<open>empty_gltf_text\<close> and 3 spaces) and an empty binary chunk (length 0, type \<open>BIN\<close>).
  The text is what \<^verbatim>\<open>JSON.stringify\<close> gives for the exporter's object, and the three
  accessors of that object have count 0. The text is well-formed JSON: the reader
  \<^const>\<open>JSON_parse\<close> accepts it and finds \<^const>\<open>empty_gltf_value\<close>, where each accessor has
  \<^verbatim>\<open>count\<close> 0. (The bounds \<^verbatim>\<open>min\<close> and \<^verbatim>\<open>max\<close> of the positions accessor are the
  untouched sentinels, written \<^verbatim>\<open>null\<close>.)
\<close>

theorem C8_empty_mesh:
  "\<exists>blob. exportGLB P \<lparr>vertices = [], normals = [], indices = []\<rparr> = Some blob
     \<and> blob = le_bytes32 0x46546C67 @ le_bytes32 2 @ le_bytes32 652 @
              le_bytes32 624 @ le_bytes32 0x4E4F534A @
              TextEncoder_encode empty_gltf_text @ TextEncoder_encode ''   '' @
              le_bytes32 0 @ le_bytes32 0x004E4942
     \<and> length blob = 652
     \<and> length empty_gltf_text = 621
     \<and> JSON_stringify P (exportGLB_json P \<lparr>vertices = [], normals = [], indices = []\<rparr>)
         = empty_gltf_text
     \<and> JSON_parse empty_gltf_text = Some empty_gltf_value
     \<and> accessor_counts (exportGLB_json P \<lparr>vertices = [], normals = [], indices = []\<rparr>)
         = [Some (JNat 0), Some (JNat 0), Some (JNat 0)]"
proof -
  have "accessor_counts (exportGLB_json P empty_mesh) = [Some (JNat 0), Some (JNat 0), Some (JNat 0)]"
    unfolding empty_json by (simp add: accessor_counts_def)
  with empty_blob [of P] length_empty_blob [OF empty_blob [of P]] empty_text [of P]
    length_empty_gltf_text parse_empty_text
  show ?thesis
    unfolding empty_mesh_def by blast
qed

text \<open>
  \<^bold>\<open>C10\<close>: for every input mesh \<^verbatim>\<open>exportGLB\<close> returns a blob (no error is raised), the
  index segment, which is the last \<open>2 * indexCount\<close> bytes of the blob, holds each index
  value modulo \<open>2\<^sup>1\<^sup>6\<close> as a little-endian 16-bit number, and the counts the accessors
  declare are those of the input: the number of indices, and the number of position
  components divided by 3. The JSON chunk of the blob, from byte 20 on, is the text of
  the object that holds these counts.
\<close>

theorem C10_indices_wrap:
  "\<exists>blob. exportGLB P g = Some blob
     \<and> map (\<lambda>k. u16_at blob (length blob - 2 * length (indices g) + 2 * k))
           [0..<length (indices g)]
         = map (\<lambda>v. v mod 65536) (indices g)
     \<and> take (length (JSON_stringify P (exportGLB_json P g))) (drop 20 blob)
         = TextEncoder_encode (JSON_stringify P (exportGLB_json P g))
     \<and> accessor_counts (exportGLB_json P g)
         = [Some (JNat (length (indices g))),
            Some (JNumber (Finite (real (length (vertices g)) / 3))),
            Some (JNumber (Finite (real (length (vertices g)) / 3)))]"
proof -
  obtain blob where blob: "exportGLB P g = Some blob"
    by (simp add: exportGLB_eq)
  from exportGLB_index_suffix [OF blob] obtain pre
    where pre: "blob = pre @ index_bytes (Uint16Array (indices g))"
      and len: "length pre + 2 * length (indices g) = length blob"
    by blast
  have "map (\<lambda>k. u16_at blob (length blob - 2 * length (indices g) + 2 * k))
           [0..<length (indices g)] = map (\<lambda>v. v mod 65536) (indices g)"
    unfolding pre by (rule stored_indices) (use len pre in simp)
  moreover have "take (length (JSON_stringify P (exportGLB_json P g))) (drop 20 blob)
         = TextEncoder_encode (JSON_stringify P (exportGLB_json P g))"
  proof -
    from blob have "blob = glb_layout (JSON_stringify P (exportGLB_json P g)) (binary_payload P g)"
      by (simp add: exportGLB_eq)
    then show ?thesis
      by (simp only: glb_layout_json_text)
  qed
  moreover have "accessor_counts (exportGLB_json P g)
         = [Some (JNat (length (indices g))),
            Some (JNumber (Finite (real (length (vertices g)) / 3))),
            Some (JNumber (Finite (real (length (vertices g)) / 3)))]"
    by (simp add: exportGLB_json_def accessor_counts_def Let_def split: prod.split)
  ultimately show ?thesis
    using blob by blast
qed

end
